theory Spec2Isabelle
  imports Complex_Main "HOL-Library.Char_ord" "HOL-Library.List_Lexorder"
begin

section \<open>Data model (types.ts)\<close>

text \<open>
  JavaScript strings are modelled as \<^typ>\<open>string\<close>; \<open>length\<close> counts code units.
  Strings are compared the way JavaScript and SQLite's BINARY collation compare them:
  lexicographically by code unit.  Every reading of the clock (\<open>new Date().toISOString()\<close>)
  and every draw of \<open>uuidv4()\<close> is an argument of the operation that performs it.
\<close>

datatype MemoryType = Diary | Insight | Knowledge | Shared

datatype Priority = P0 | P1 | P2

record Memory =
  id_of :: string
  type_of :: MemoryType
  priority :: Priority
  title :: string
  summary :: string
  content :: string
  tags :: "string list"
  agent_id :: string
  source_ids :: "string list"
  created_at :: string
  updated_at :: string
  expires_at :: "string option"

text \<open>\<open>MemoryInput\<close>: the optional members are options; \<open>expires_at\<close> may be absent or null,
  and both are read as null by \<open>insert\<close>.\<close>

record MemoryInput =
  in_type :: MemoryType
  in_priority :: Priority
  in_title :: string
  in_summary :: string
  in_content :: string
  in_tags :: "string list option"
  in_agent_id :: "string option"
  in_source_ids :: "string list option"
  in_expires_at :: "string option"

record Metric =
  event :: string
  data :: "(string \<times> string) list"
  metric_at :: string

text \<open>The two tables of \<open>index.db\<close>; the rows of \<open>memories\<close> are kept in rowid order.\<close>

record IndexDB =
  memories :: "Memory list"
  metrics :: "Metric list"

text \<open>
  What a call can end in besides its result: the exceptions the code can raise
  (\<open>InvalidParams\<close> is the tool server rejecting arguments that fail validation), and
  \<open>OutsideModel\<close>, which is not an exception of the program: it marks a full-text query
  or a stored text beyond the fragment of SQLite's FTS5 that is modelled below, about
  which the model says nothing.
\<close>

datatype failure = SqliteError | RangeError | TypeError | InvalidParams | OutsideModel

section \<open>Store (index-db.ts)\<close>

text \<open>
  \<open>insert\<close>: \<open>now\<close> is read once and written to both timestamps.  The table's primary key
  makes the INSERT statement fail when the drawn id is already present.
\<close>

definition toMemory :: "string \<Rightarrow> string \<Rightarrow> MemoryInput \<Rightarrow> Memory" where
  "toMemory now uuid input =
     \<lparr> id_of = uuid,
       type_of = in_type input,
       priority = in_priority input,
       title = in_title input,
       summary = in_summary input,
       content = in_content input,
       tags = (case in_tags input of None \<Rightarrow> [] | Some ts \<Rightarrow> ts),
       agent_id = (case in_agent_id input of None \<Rightarrow> [] | Some a \<Rightarrow> a),
       source_ids = (case in_source_ids input of None \<Rightarrow> [] | Some ss \<Rightarrow> ss),
       created_at = now,
       updated_at = now,
       expires_at = in_expires_at input \<rparr>"

definition insert_row :: "string \<Rightarrow> string \<Rightarrow> MemoryInput \<Rightarrow> IndexDB \<Rightarrow> failure + (Memory \<times> IndexDB)" where
  "insert_row now uuid input db =
     (let memory = toMemory now uuid input in
      if uuid \<in> set (map id_of (memories db)) then Inl SqliteError
      else Inr (memory, db\<lparr>memories := memories db @ [memory]\<rparr>))"

text \<open>
  The row stored under an id, and \<open>rowToMemory\<close>, through which every read operation
  returns its rows: it reads an empty \<open>expires_at\<close> back as null and leaves the other
  columns as they are (the JSON text of \<open>tags\<close> and \<open>source_ids\<close> parses back to the list).
\<close>

definition row_by_id :: "IndexDB \<Rightarrow> string \<Rightarrow> Memory option" where
  "row_by_id db i = find (\<lambda>m. id_of m = i) (memories db)"

definition rowToMemory :: "Memory \<Rightarrow> Memory" where
  "rowToMemory row = row\<lparr>expires_at := (case expires_at row of None \<Rightarrow> None
                                          | Some e \<Rightarrow> if e = [] then None else Some e)\<rparr>"

definition getById :: "IndexDB \<Rightarrow> string \<Rightarrow> Memory option" where
  "getById db i = map_option rowToMemory (row_by_id db i)"

text \<open>\<open>ORDER BY updated_at DESC\<close>: newest first, rows with equal \<open>updated_at\<close> in rowid order.\<close>

definition newest_first :: "Memory list \<Rightarrow> Memory list" where
  "newest_first ms = rev (sort_key updated_at (rev ms))"

definition getByType :: "IndexDB \<Rightarrow> MemoryType \<Rightarrow> nat \<Rightarrow> Memory list" where
  "getByType db t limit =
     map rowToMemory (take limit (newest_first (filter (\<lambda>m. type_of m = t) (memories db))))"

definition getByPriority :: "IndexDB \<Rightarrow> Priority \<Rightarrow> nat \<Rightarrow> Memory list" where
  "getByPriority db p limit =
     map rowToMemory (take limit (newest_first (filter (\<lambda>m. priority m = p) (memories db))))"

definition is_expired :: "string \<Rightarrow> Memory \<Rightarrow> bool" where
  "is_expired now m = (case expires_at m of None \<Rightarrow> False | Some e \<Rightarrow> e < now)"

definition getExpired :: "string \<Rightarrow> IndexDB \<Rightarrow> Memory list" where
  "getExpired now db = map rowToMemory (filter (is_expired now) (memories db))"

definition delete_row :: "string \<Rightarrow> IndexDB \<Rightarrow> bool \<times> IndexDB" where
  "delete_row i db =
     (i \<in> set (map id_of (memories db)),
      db\<lparr>memories := filter (\<lambda>m. id_of m \<noteq> i) (memories db)\<rparr>)"

definition recordMetric :: "string \<Rightarrow> string \<Rightarrow> (string \<times> string) list \<Rightarrow> IndexDB \<Rightarrow> IndexDB" where
  "recordMetric now ev d db =
     db\<lparr>metrics := metrics db @ [\<lparr>event = ev, data = d, metric_at = now\<rparr>]\<rparr>"

subsection \<open>update\<close>

text \<open>
  The \<open>fields\<close> argument is a partial object over six keys; \<open>Object.entries\<close> lists the
  keys that are present.  Each entry becomes one assignment of the UPDATE statement,
  \<open>updated_at\<close> is appended, and the statement runs on the rows whose id matches.
\<close>

record UpdateFields =
  f_title :: "string option"
  f_summary :: "string option"
  f_content :: "string option"
  f_tags :: "string list option"
  f_priority :: "Priority option"
  f_expires_at :: "string option option"

datatype assignment =
    SetTitle string
  | SetSummary string
  | SetContent string
  | SetTags "string list"
  | SetPriority Priority
  | SetExpiresAt "string option"
  | SetUpdatedAt string

definition entries :: "UpdateFields \<Rightarrow> assignment list" where
  "entries fs =
     (case f_title fs of None \<Rightarrow> [] | Some v \<Rightarrow> [SetTitle v]) @
     (case f_summary fs of None \<Rightarrow> [] | Some v \<Rightarrow> [SetSummary v]) @
     (case f_content fs of None \<Rightarrow> [] | Some v \<Rightarrow> [SetContent v]) @
     (case f_tags fs of None \<Rightarrow> [] | Some v \<Rightarrow> [SetTags v]) @
     (case f_priority fs of None \<Rightarrow> [] | Some v \<Rightarrow> [SetPriority v]) @
     (case f_expires_at fs of None \<Rightarrow> [] | Some v \<Rightarrow> [SetExpiresAt v])"

fun assign :: "assignment \<Rightarrow> Memory \<Rightarrow> Memory" where
  "assign (SetTitle v) m = m\<lparr>title := v\<rparr>"
| "assign (SetSummary v) m = m\<lparr>summary := v\<rparr>"
| "assign (SetContent v) m = m\<lparr>content := v\<rparr>"
| "assign (SetTags v) m = m\<lparr>tags := v\<rparr>"
| "assign (SetPriority v) m = m\<lparr>priority := v\<rparr>"
| "assign (SetExpiresAt v) m = m\<lparr>expires_at := v\<rparr>"
| "assign (SetUpdatedAt v) m = m\<lparr>updated_at := v\<rparr>"

definition run_update :: "assignment list \<Rightarrow> string \<Rightarrow> Memory list \<Rightarrow> Memory list" where
  "run_update sets i rows = map (\<lambda>m. if id_of m = i then fold assign sets m else m) rows"

definition update :: "string \<Rightarrow> string \<Rightarrow> UpdateFields \<Rightarrow> IndexDB \<Rightarrow> bool \<times> IndexDB" where
  "update now i fs db =
     (let sets = entries fs @ [SetUpdatedAt now];
          changes = length (filter (\<lambda>m. id_of m = i) (memories db))
      in (changes > 0, db\<lparr>memories := run_update sets i (memories db)\<rparr>))"

definition no_fields :: UpdateFields where
  "no_fields = \<lparr> f_title = None, f_summary = None, f_content = None, f_tags = None,
                  f_priority = None, f_expires_at = None \<rparr>"

text \<open>What a partial update leaves of a row: each listed field replaced, \<open>updated_at\<close> set.\<close>

definition updated :: "string \<Rightarrow> UpdateFields \<Rightarrow> Memory \<Rightarrow> Memory" where
  "updated now fs m =
     m\<lparr> title := (case f_title fs of None \<Rightarrow> title m | Some v \<Rightarrow> v),
        summary := (case f_summary fs of None \<Rightarrow> summary m | Some v \<Rightarrow> v),
        content := (case f_content fs of None \<Rightarrow> content m | Some v \<Rightarrow> v),
        tags := (case f_tags fs of None \<Rightarrow> tags m | Some v \<Rightarrow> v),
        priority := (case f_priority fs of None \<Rightarrow> priority m | Some v \<Rightarrow> v),
        expires_at := (case f_expires_at fs of None \<Rightarrow> expires_at m | Some v \<Rightarrow> v),
        updated_at := now \<rparr>"


section \<open>Configuration (types.ts, config.ts)\<close>

text \<open>The nested sections of \<open>MichiMemConfig\<close> are flattened; the numbers are integers.\<close>

record MichiMemConfig =
  data_dir :: string
  diary_days :: int
  insight_days :: int
  l0_budget :: int
  l1_budget :: int
  checkpoint_budget :: int
  diary_threshold :: int
  insight_threshold :: int

section \<open>Tiering (tiering.ts)\<close>

record TieredResult =
  tr_id :: string
  tr_title :: string
  tr_type :: MemoryType
  tr_priority :: Priority
  text_of :: string

definition toTiered :: "Memory \<Rightarrow> string \<Rightarrow> TieredResult" where
  "toTiered m t =
     \<lparr> tr_id = id_of m, tr_title = title m, tr_type = type_of m,
       tr_priority = priority m, text_of = t \<rparr>"

definition estimateTokens :: "string \<Rightarrow> int" where
  "estimateTokens t = \<lceil>of_nat (length t) / (4 :: rat)\<rceil>"

definition l0_line :: "Memory \<Rightarrow> string" where
  "l0_line m = title m @ '': '' @ summary m"

text \<open>
  One \<open>for\<close> loop of \<open>buildL0\<close>: the state is \<open>(results, tokenEstimate)\<close>, and the loop
  is left at the first record that does not fit.
\<close>

fun emit :: "int \<Rightarrow> Memory list \<Rightarrow> TieredResult list \<times> int \<Rightarrow> TieredResult list \<times> int" where
  "emit budget [] st = st"
| "emit budget (m # ms) (results, tokenEstimate) =
     (let line = l0_line m; tokens = estimateTokens line in
      if tokenEstimate + tokens > budget then (results, tokenEstimate)
      else emit budget ms (results @ [toTiered m line], tokenEstimate + tokens))"

definition buildL0 :: "IndexDB \<Rightarrow> MichiMemConfig \<Rightarrow> TieredResult list" where
  "buildL0 db config =
     (let budget = l0_budget config;
          st0 = ([], 0);
          st1 = emit budget (getByPriority db P0 20) st0;
          st2 = emit budget (getByType db Insight 10) st1;
          st3 = emit budget (getByType db Shared 5) st2
      in fst st3)"

text \<open>The running estimate after the first \<open>k\<close> emitted entries.\<close>

definition cumulative :: "TieredResult list \<Rightarrow> nat \<Rightarrow> int" where
  "cumulative rs k = sum_list (map (\<lambda>r. estimateTokens (text_of r)) (take k rs))"

definition tokens_total :: "TieredResult list \<Rightarrow> int" where
  "tokens_total rs = sum_list (map (\<lambda>r. estimateTokens (text_of r)) rs)"

section \<open>Compounding: overlap clustering (compounding.ts)\<close>

text \<open>
  Text helpers on ASCII: \<open>toLowerCase\<close>, \<open>Array.join\<close>, the word characters of \<open>\W\<close>,
  and \<open>split(/\W+/)\<close>, which cuts at every maximal run of non-word characters and keeps
  the (possibly empty) pieces before the first and after the last run.
\<close>

definition toLowerCase_char :: "char \<Rightarrow> char" where
  "toLowerCase_char c =
     (case map_of (zip ''ABCDEFGHIJKLMNOPQRSTUVWXYZ'' ''abcdefghijklmnopqrstuvwxyz'') c of
        None \<Rightarrow> c | Some l \<Rightarrow> l)"

definition toLowerCase :: "string \<Rightarrow> string" where
  "toLowerCase s = map toLowerCase_char s"

fun join :: "string \<Rightarrow> string list \<Rightarrow> string" where
  "join sep [] = []"
| "join sep [x] = x"
| "join sep (x # y # ys) = x @ sep @ join sep (y # ys)"

definition is_word_char :: "char \<Rightarrow> bool" where
  "is_word_char c =
     (c \<in> set ''abcdefghijklmnopqrstuvwxyzABCDEFGHIJKLMNOPQRSTUVWXYZ0123456789_'')"

fun split_runs :: "bool \<Rightarrow> string \<Rightarrow> string \<Rightarrow> string list" where
  "split_runs in_sep cur [] = [cur]"
| "split_runs in_sep cur (c # cs) =
     (if is_word_char c then split_runs False (cur @ [c]) cs
      else if in_sep then split_runs True cur cs
      else cur # split_runs True [] cs)"

definition split_nonword :: "string \<Rightarrow> string list" where
  "split_nonword s = split_runs False [] s"

definition words_of :: "Memory \<Rightarrow> string list" where
  "words_of mem =
     (let t = toLowerCase (title mem @ '' '' @ summary mem @ '' '' @ join '' '' (tags mem))
      in filter (\<lambda>w. length w > 3) (split_nonword t))"

definition extractWords :: "Memory \<Rightarrow> string set" where
  "extractWords mem = set (words_of mem)"

definition computeOverlap :: "string set \<Rightarrow> string set \<Rightarrow> real" where
  "computeOverlap a b =
     (if card a = 0 \<or> card b = 0 then 0
      else real (card (a \<inter> b)) / real (min (card a) (card b)))"

text \<open>
  \<open>groupByOverlap\<close>: the inner loop runs over the whole input with the seed's words and
  the state \<open>(group, assigned)\<close> (\<open>grp\<close> below); the outer loop carries \<open>(groups, assigned)\<close>.
\<close>

fun gather :: "string set \<Rightarrow> Memory list \<Rightarrow> Memory list \<times> string set \<Rightarrow> Memory list \<times> string set" where
  "gather memWords [] st = st"
| "gather memWords (other # rest) (grp, assigned) =
     (if id_of other \<in> assigned then gather memWords rest (grp, assigned)
      else
        let otherWords = extractWords other;
            overlap = computeOverlap memWords otherWords
        in if overlap \<ge> 0.15
           then gather memWords rest (grp @ [other], insert (id_of other) assigned)
           else gather memWords rest (grp, assigned))"

fun seeds :: "Memory list \<Rightarrow> Memory list \<Rightarrow> Memory list list \<times> string set \<Rightarrow> Memory list list \<times> string set" where
  "seeds all [] st = st"
| "seeds all (mem # rest) (grps, assigned) =
     (if id_of mem \<in> assigned then seeds all rest (grps, assigned)
      else
        let st = gather (extractWords mem) all ([mem], insert (id_of mem) assigned)
        in seeds all rest (grps @ [fst st], snd st))"

definition groupByOverlap :: "Memory list \<Rightarrow> Memory list list" where
  "groupByOverlap ms = (if ms = [] then [] else fst (seeds ms ms ([], {})))"

text \<open>The test of the inner loop, and what it establishes for a finished group: the first
  member is the seed and every later member passed the test against the seed.\<close>

definition joins :: "string set \<Rightarrow> Memory \<Rightarrow> bool" where
  "joins w n = (computeOverlap w (extractWords n) \<ge> 0.15)"

definition well_seeded :: "Memory list \<Rightarrow> bool" where
  "well_seeded g = (g \<noteq> [] \<and> (\<forall>n \<in> set (tl g). joins (extractWords (hd g)) n))"

section \<open>Lifecycle (lifecycle.ts)\<close>

text \<open>
  The environment of one run: the successive readings of the clock, and which paths the
  file system accepts a write to (a failing \<open>mkdirSync\<close> or \<open>writeFileSync\<close> throws, and
  \<open>archiveMemory\<close> catches it).  The archive directory is a map from paths to contents.
\<close>

fun type_name :: "MemoryType \<Rightarrow> string" where
  "type_name Diary = ''diary''"
| "type_name Insight = ''insight''"
| "type_name Knowledge = ''knowledge''"
| "type_name Shared = ''shared''"

fun priority_digit :: "Priority \<Rightarrow> string" where
  "priority_digit P0 = ''0''"
| "priority_digit P1 = ''1''"
| "priority_digit P2 = ''2''"

definition or_default :: "string \<Rightarrow> string \<Rightarrow> string" where
  "or_default s d = (if s = [] then d else s)"

definition archive_path :: "MichiMemConfig \<Rightarrow> Memory \<Rightarrow> string" where
  "archive_path config mem =
     (let archiveDir = data_dir config @ ''/archive'';
          datePrefix = take 10 (created_at mem);
          filename = datePrefix @ ''-'' @ take 8 (id_of mem) @ ''.md''
      in archiveDir @ ''/'' @ filename)"

definition archive_content :: "string \<Rightarrow> Memory \<Rightarrow> string" where
  "archive_content now mem =
     join [CHR 0x0A]
       [ ''# '' @ title mem,
         [],
         ''- Type: '' @ type_name (type_of mem),
         ''- Priority: P'' @ priority_digit (priority mem),
         ''- Tags: '' @ or_default (join '', '' (tags mem)) ''none'',
         ''- Created: '' @ created_at mem,
         ''- Expired: '' @ now,
         [],
         ''## Summary'',
         summary mem,
         [],
         ''## Content'',
         content mem ]"

definition archiveMemory ::
  "(string \<Rightarrow> bool) \<Rightarrow> string \<Rightarrow> Memory \<Rightarrow> MichiMemConfig \<Rightarrow> (string \<rightharpoonup> string) \<Rightarrow> bool \<times> (string \<rightharpoonup> string)" where
  "archiveMemory writable now mem config files =
     (let filepath = archive_path config mem in
      if writable filepath then (True, files(filepath \<mapsto> archive_content now mem))
      else (False, files))"

record LifecycleResult =
  expired :: nat
  archived :: nat

record lifecycle_state =
  ls_db :: IndexDB
  ls_files :: "string \<rightharpoonup> string"
  ls_result :: LifecycleResult
  ls_tick :: nat

text \<open>The body of the loop over the expired records; two clock readings per record.\<close>

definition expire_one ::
  "(nat \<Rightarrow> string) \<Rightarrow> (string \<Rightarrow> bool) \<Rightarrow> MichiMemConfig \<Rightarrow> Memory \<Rightarrow> lifecycle_state \<Rightarrow> lifecycle_state" where
  "expire_one clock writable config mem st =
     (let t = ls_tick st;
          (was_archived, files') = archiveMemory writable (clock t) mem config (ls_files st);
          db1 = snd (delete_row (id_of mem) (ls_db st));
          r1 = (ls_result st)\<lparr>expired := expired (ls_result st) + 1\<rparr>;
          r2 = (if was_archived then r1\<lparr>archived := archived r1 + 1\<rparr> else r1);
          db2 = recordMetric (clock (t + 1)) ''lifecycle_expire''
                  [(''id'', id_of mem), (''type'', type_name (type_of mem)),
                   (''priority'', priority_digit (priority mem))] db1
      in \<lparr> ls_db = db2, ls_files = files', ls_result = r2, ls_tick = t + 2 \<rparr>)"

definition runLifecycle ::
  "(nat \<Rightarrow> string) \<Rightarrow> (string \<Rightarrow> bool) \<Rightarrow> MichiMemConfig \<Rightarrow> IndexDB \<Rightarrow> (string \<rightharpoonup> string) \<Rightarrow> lifecycle_state" where
  "runLifecycle clock writable config db files =
     (let result = \<lparr> expired = 0, archived = 0 \<rparr>;
          expired_rows = getExpired (clock 0) db
      in fold (expire_one clock writable config) expired_rows
           \<lparr> ls_db = db, ls_files = files, ls_result = result, ls_tick = 1 \<rparr>)"

section \<open>Checkpoints (checkpoint.ts)\<close>


definition startsWith :: "string \<Rightarrow> string \<Rightarrow> bool" where
  "startsWith s p = (take (length p) s = p)"






section \<open>Extractor (extractor.ts)\<close>

text \<open>
  A transcript message as the code types it: \<open>role\<close> is a string and \<open>content\<close> is a
  string, a list of blocks, or something else.  \<open>content_json\<close> is \<open>JSON.stringify\<close> of the
  content.  Three builtins are parameters of the model: reading the file (\<open>None\<close> where
  \<open>readFileSync\<close> throws), \<open>JSON.parse\<close> of one line (\<open>None\<close> where it throws), and the
  regular expression engine, which lists the successive matches of \<open>exec\<close> on a text:
  index, whole match and first group.

  \<open>JSON.parse\<close> returns any JSON value, and nothing checks that it is a message.  The
  code reads two properties of it, \<open>role\<close> and \<open>content\<close>.  On the value \<open>null\<close> reading a
  property raises a \<open>TypeError\<close>; on every other value it gives the property or
  \<open>undefined\<close>.  So a parsed line is \<open>Null\<close> or a \<open>Message\<close>, whose \<open>role\<close> is the string found
  there (any string other than \<open>user\<close> and \<open>assistant\<close> when there is none: the role is only
  compared with these two) and whose content is \<open>COther\<close> when there is none.
\<close>

datatype block = BString string | BText string | BOther

datatype message_content = CString string | CBlocks "block list" | COther

record TranscriptMessage =
  role :: string
  msg_content :: message_content
  content_json :: string

datatype line_value = Null | Message TranscriptMessage

record ExtractedMemories =
  ex_diary :: "MemoryInput option"
  ex_corrections :: "MemoryInput list"
  ex_preferences :: "MemoryInput list"

datatype pattern =
    CorrectionPattern | NegativePattern
  | PreferencePattern1 | PreferencePattern2
  | TopicPattern1 | TopicPattern2
  | FilePattern

record rmatch =
  m_index :: nat
  m_whole :: string
  m_group :: string

type_synonym regex_engine = "pattern \<Rightarrow> string \<Rightarrow> rmatch list"

definition is_space :: "char \<Rightarrow> bool" where
  "is_space c = (c \<in> set [CHR '' '', CHR 0x09, CHR 0x0A, CHR 0x0B, CHR 0x0C, CHR 0x0D, CHR 0xA0])"

definition trim :: "string \<Rightarrow> string" where
  "trim s = rev (dropWhile is_space (rev (dropWhile is_space s)))"

definition slice :: "string \<Rightarrow> nat \<Rightarrow> nat \<Rightarrow> string" where
  "slice s a b = take (b - a) (drop a s)"

fun split_lines :: "string \<Rightarrow> string \<Rightarrow> string list" where
  "split_lines cur [] = [cur]"
| "split_lines cur (c # cs) =
     (if c = CHR 0x0A then cur # split_lines [] cs else split_lines (cur @ [c]) cs)"

fun uniq :: "string list \<Rightarrow> string list \<Rightarrow> string list" where
  "uniq seen [] = []"
| "uniq seen (x # xs) = (if x \<in> set seen then uniq seen xs else x # uniq (x # seen) xs)"

fun show_nat :: "nat \<Rightarrow> string" where
  "show_nat n =
     (if n < 10 then [''0123456789'' ! n]
      else show_nat (n div 10) @ [''0123456789'' ! (n mod 10)])"

text \<open>\<open>toISOString\<close> throws a RangeError outside the range of \<open>Date\<close>; inside, the rendering
  \<open>fmt\<close> of epoch milliseconds is a parameter.  \<open>clock k\<close> is the \<open>k\<close>-th reading of the time
  in milliseconds during a call (a reading of the current time is always in range).\<close>

definition toISOString :: "(int \<Rightarrow> string) \<Rightarrow> int \<Rightarrow> failure + string" where
  "toISOString fmt t = (if \<bar>t\<bar> \<le> 8640000000000000 then Inr (fmt t) else Inl RangeError)"

fun block_text :: "block \<Rightarrow> string" where
  "block_text (BString s) = s"
| "block_text (BText s) = s"
| "block_text BOther = []"

fun extractText :: "message_content \<Rightarrow> string" where
  "extractText (CString s) = s"
| "extractText (CBlocks bs) = join '' '' (map block_text bs)"
| "extractText COther = []"

fun dedup_from :: "string set \<Rightarrow> MemoryInput list \<Rightarrow> MemoryInput list" where
  "dedup_from seen [] = []"
| "dedup_from seen (m # ms) =
     (let key = toLowerCase (in_title m) in
      if key \<in> seen then dedup_from seen ms else m # dedup_from (insert key seen) ms)"

definition dedup :: "MemoryInput list \<Rightarrow> MemoryInput list" where
  "dedup ms = dedup_from {} ms"

definition context_window :: "string \<Rightarrow> rmatch \<Rightarrow> nat \<Rightarrow> string" where
  "context_window t m k = slice t (m_index m - k) (m_index m + length (m_whole m) + k)"

definition correction_of :: "string \<Rightarrow> string \<Rightarrow> rmatch \<Rightarrow> MemoryInput list" where
  "correction_of kind t m =
     (let extracted = trim (m_group m) in
      if length extracted < 15 then []
      else [\<lparr> in_type = Knowledge, in_priority = P0,
              in_title = ''Correction: '' @ slice extracted 0 60,
              in_summary = slice extracted 0 150,
              in_content = ''Source: user correction ('' @ kind @ '')'' @ [CHR 0x0A] @
                           ''Context: '' @ context_window t m 50,
              in_tags = Some [''correction'', kind],
              in_agent_id = None, in_source_ids = None, in_expires_at = None \<rparr>])"

definition extractCorrections :: "regex_engine \<Rightarrow> TranscriptMessage list \<Rightarrow> MemoryInput list" where
  "extractCorrections rx messages =
     dedup (concat (map (\<lambda>msg.
       let t = extractText (msg_content msg) in
       concat (map (correction_of ''correction'' t) (rx CorrectionPattern t)) @
       concat (map (correction_of ''negative_preference'' t) (rx NegativePattern t)))
       (filter (\<lambda>m. role m = ''user'') messages)))"

definition preference_of :: "string \<Rightarrow> rmatch \<Rightarrow> MemoryInput list" where
  "preference_of t m =
     (let extracted = trim (m_group m) in
      if length extracted < 10 then []
      else [\<lparr> in_type = Knowledge, in_priority = P0,
              in_title = ''Preference: '' @ slice extracted 0 60,
              in_summary = slice extracted 0 150,
              in_content = ''Source: user preference'' @ [CHR 0x0A] @
                           ''Full context: '' @ context_window t m 30,
              in_tags = Some [''preference''],
              in_agent_id = None, in_source_ids = None, in_expires_at = None \<rparr>])"

definition extractPreferences :: "regex_engine \<Rightarrow> TranscriptMessage list \<Rightarrow> MemoryInput list" where
  "extractPreferences rx messages =
     dedup (concat (map (\<lambda>msg.
       let t = extractText (msg_content msg) in
       concat (map (preference_of t) (rx PreferencePattern1 t)) @
       concat (map (preference_of t) (rx PreferencePattern2 t)))
       (filter (\<lambda>m. role m = ''user'') messages)))"

definition extractTopics :: "regex_engine \<Rightarrow> TranscriptMessage list \<Rightarrow> string list" where
  "extractTopics rx messages =
     take 5 (uniq [] (concat (map (\<lambda>msg.
       let t = extractText (msg_content msg) in
       map (\<lambda>m. toLowerCase (trim (m_group m))) (rx TopicPattern1 t @ rx TopicPattern2 t))
       (take 10 messages))))"

definition is_infix :: "string \<Rightarrow> string \<Rightarrow> bool" where
  "is_infix p s = (\<exists>k \<in> set (upt 0 (Suc (length s))). take (length p) (drop k s) = p)"

definition extractFileRefs :: "regex_engine \<Rightarrow> TranscriptMessage list \<Rightarrow> string list" where
  "extractFileRefs rx messages =
     take 10 (uniq [] (concat (map (\<lambda>msg.
       filter (\<lambda>f. is_infix ''/'' f \<and> \<not> startsWith f ''http'' \<and> \<not> is_infix ''node_modules'' f)
         (map m_whole (rx FilePattern (content_json msg))))
       messages)))"

definition diary_line :: "TranscriptMessage \<Rightarrow> string list" where
  "diary_line msg =
     (let t = extractText (msg_content msg) in
      if length t > 0
      then [(if role msg = ''user'' then ''**User**'' else ''**Assistant**'') @ '': '' @ slice t 0 200]
      else [])"

definition buildDiary ::
  "regex_engine \<Rightarrow> (int \<Rightarrow> string) \<Rightarrow> (nat \<Rightarrow> int) \<Rightarrow> TranscriptMessage list \<Rightarrow> MichiMemConfig \<Rightarrow> failure + MemoryInput" where
  "buildDiary rx fmt clock messages config =
     (let userMessages = filter (\<lambda>m. role m = ''user'') messages;
          assistantMessages = filter (\<lambda>m. role m = ''assistant'') messages;
          firstUserMsg = slice (case userMessages of [] \<Rightarrow> [] | m # _ \<Rightarrow> extractText (msg_content m)) 0 100;
          topics = extractTopics rx messages;
          filesModified = extractFileRefs rx messages;
          diary_title = if firstUserMsg \<noteq> []
            then ''Session: '' @ trim (map (\<lambda>c. if c = CHR 0x0A then CHR '' '' else c) firstUserMsg)
            else ''Session diary '' @ slice (fmt (clock 0)) 0 10;
          summary = join '' ''
                 ([show_nat (length userMessages) @ '' user msgs, '' @
                   show_nat (length assistantMessages) @ '' assistant msgs.''] @
                  (if length topics > 0 then [''Topics: '' @ join '', '' topics] else []));
          contentParts = concat (map diary_line (drop (length messages - 20) messages)) @
                  (if length filesModified > 0
                   then [[CHR 0x0A] @ ''Files referenced: '' @ join '', '' filesModified] else [])
      in case toISOString fmt (clock 1 + diary_days config * 86400000) of
           Inl e \<Rightarrow> Inl e
         | Inr expiresAt \<Rightarrow>
             Inr \<lparr> in_type = Diary, in_priority = P2,
                   in_title = diary_title, in_summary = summary,
                   in_content = join [CHR 0x0A] contentParts,
                   in_tags = Some (take 5 topics),
                   in_agent_id = None, in_source_ids = None,
                   in_expires_at = Some expiresAt \<rparr>)"

definition no_memories :: ExtractedMemories where
  "no_memories = \<lparr> ex_diary = None, ex_corrections = [], ex_preferences = [] \<rparr>"

text \<open>The \<open>try\<close> block: the file is read, cut at line feeds, the empty lines are dropped and
  each remaining line is parsed; \<open>None\<close> when anything in it throws.\<close>

definition read_messages ::
  "(string \<Rightarrow> string option) \<Rightarrow> (string \<Rightarrow> line_value option) \<Rightarrow> string \<Rightarrow> line_value list option" where
  "read_messages readFile parse_line transcriptPath =
     (case readFile transcriptPath of
        None \<Rightarrow> None
      | Some raw \<Rightarrow> those (map parse_line (filter (\<lambda>l. l \<noteq> []) (split_lines [] raw))))"

text \<open>
  The first statement of \<open>buildDiary\<close>, \<open>messages.filter((m) => m.role === "user")\<close>, reads
  \<open>role\<close> of every element in turn and so raises a \<open>TypeError\<close> when \<open>null\<close> is among them.
  \<open>buildDiary\<close> is the first thing the return expression evaluates, and it is outside the
  \<open>try\<close>.  Past that statement every element is known to be a message.
\<close>

fun role_reads :: "line_value list \<Rightarrow> failure + TranscriptMessage list" where
  "role_reads [] = Inr []"
| "role_reads (Null # vs) = Inl TypeError"
| "role_reads (Message m # vs) =
     (case role_reads vs of Inl e \<Rightarrow> Inl e | Inr ms \<Rightarrow> Inr (m # ms))"

definition extractFromTranscript ::
  "(string \<Rightarrow> string option) \<Rightarrow> (string \<Rightarrow> line_value option) \<Rightarrow> regex_engine \<Rightarrow>
   (int \<Rightarrow> string) \<Rightarrow> (nat \<Rightarrow> int) \<Rightarrow> string \<Rightarrow> MichiMemConfig \<Rightarrow> failure + ExtractedMemories" where
  "extractFromTranscript readFile parse_line rx fmt clock transcriptPath config =
     (case read_messages readFile parse_line transcriptPath of
        None \<Rightarrow> Inr no_memories
      | Some vs \<Rightarrow>
          if length vs < 4 then Inr no_memories
          else (case role_reads vs of
                  Inl e \<Rightarrow> Inl e
                | Inr messages \<Rightarrow>
                    (case buildDiary rx fmt clock messages config of
                       Inl e \<Rightarrow> Inl e
                     | Inr diary \<Rightarrow>
                         Inr \<lparr> ex_diary = Some diary,
                               ex_corrections = extractCorrections rx messages,
                               ex_preferences = extractPreferences rx messages \<rparr>)))"

section \<open>Full-text search (the FTS5 table behind \<open>IndexDB.search\<close>)\<close>

text \<open>
  \<open>search\<close> hands its query string to \<open>memories_fts MATCH ?\<close>.  The engine is SQLite's, not
  the repository's; it is modelled here for ASCII text and for queries that are plain
  sequences of terms, after the FTS5 documentation and sources:
  \<^item> the query is cut into tokens: white space separates; \<open>( ) { } : , + * - ^\<close> are
    tokens of their own; a double quote opens a string that runs to the next single
    double quote (\<open>""\<close> stands for one); a run of letters, digits, \<open>_\<close>, 0x1A and bytes from
    0x80 is a bareword, which is a string token unless it is \<open>AND\<close>, \<open>OR\<close> or \<open>NOT\<close>; any
    other character is a syntax error, as is an unterminated string;
  \<^item> a string token followed by \<open>:\<close> names a column, and a name that is none of the
    table's columns is an error (\<open>no such column\<close>);
  \<^item> string tokens that follow one another are phrases joined by an implicit AND; each
    is cut into terms by the \<open>unicode61\<close> tokenizer (maximal runs of letters and digits,
    folded to lower case); a row matches when each phrase occurs in one of the indexed
    columns \<open>title\<close>, \<open>summary\<close>, \<open>content\<close>, \<open>tags\<close> (the JSON text);
  \<^item> \<open>ORDER BY rank\<close> sorts by \<open>bm25\<close> with the default weights.
  Every other query (column filters on existing columns, operators, parentheses, prefix
  and NEAR queries, empty phrases, non-ASCII text) is \<open>OutsideModel\<close>.
\<close>

datatype fts_token =
    FTS_STRING string | FTS_AND | FTS_OR | FTS_NOT | FTS_PUNCT char

datatype lex_state = Idle | InWord string | InString string | QuoteSeen string

definition is_fts_space :: "char \<Rightarrow> bool" where
  "is_fts_space c = (c \<in> set [CHR '' '', CHR 0x09, CHR 0x0A, CHR 0x0D])"

definition is_fts_punct :: "char \<Rightarrow> bool" where
  "is_fts_punct c = (c \<in> set ''(){}:,+*-^'')"

definition is_alnum :: "char \<Rightarrow> bool" where
  "is_alnum c = (c \<in> set ''abcdefghijklmnopqrstuvwxyzABCDEFGHIJKLMNOPQRSTUVWXYZ0123456789'')"

definition is_bareword_char :: "char \<Rightarrow> bool" where
  "is_bareword_char c = (is_alnum c \<or> c = CHR ''_'' \<or> c = CHR 0x1A \<or> 128 \<le> (of_char c :: nat))"

definition word_token :: "string \<Rightarrow> fts_token" where
  "word_token w =
     (if w = ''AND'' then FTS_AND else if w = ''OR'' then FTS_OR
      else if w = ''NOT'' then FTS_NOT else FTS_STRING w)"

definition emit_token :: "fts_token \<Rightarrow> fts_token list option \<Rightarrow> fts_token list option" where
  "emit_token t r = map_option (\<lambda>ts. t # ts) r"

text \<open>The tokenizer of the query; \<open>None\<close> is a syntax error.  A NUL character ends the input.\<close>

function fts5_lex :: "lex_state \<Rightarrow> string \<Rightarrow> fts_token list option" where
  "fts5_lex Idle [] = Some []"
| "fts5_lex (InWord w) [] = Some [word_token w]"
| "fts5_lex (InString s) [] = None"
| "fts5_lex (QuoteSeen s) [] = Some [FTS_STRING s]"
| "fts5_lex Idle (c # cs) =
     (if c = CHR 0x00 then Some []
      else if is_fts_space c then fts5_lex Idle cs
      else if is_fts_punct c then emit_token (FTS_PUNCT c) (fts5_lex Idle cs)
      else if c = CHR 0x22 then fts5_lex (InString []) cs
      else if is_bareword_char c then fts5_lex (InWord [c]) cs
      else None)"
| "fts5_lex (InWord w) (c # cs) =
     (if is_bareword_char c then fts5_lex (InWord (w @ [c])) cs
      else emit_token (word_token w) (fts5_lex Idle (c # cs)))"
| "fts5_lex (InString s) (c # cs) =
     (if c = CHR 0x00 then None
      else if c = CHR 0x22 then fts5_lex (QuoteSeen s) cs
      else fts5_lex (InString (s @ [c])) cs)"
| "fts5_lex (QuoteSeen s) (c # cs) =
     (if c = CHR 0x22 then fts5_lex (InString (s @ [CHR 0x22])) cs
      else emit_token (FTS_STRING s) (fts5_lex Idle (c # cs)))"
  by pat_completeness auto
termination
  by (relation "measures [\<lambda>(st, cs). length cs, \<lambda>(st, cs). (if st = Idle then 0 else 1)]") auto

text \<open>The \<open>unicode61\<close> tokenizer on ASCII text; \<open>None\<close> for text with a byte from 0x80.\<close>

fun terms_from :: "string \<Rightarrow> string \<Rightarrow> string list" where
  "terms_from cur [] = (if cur = [] then [] else [cur])"
| "terms_from cur (c # cs) =
     (if is_alnum c then terms_from (cur @ [toLowerCase_char c]) cs
      else if cur = [] then terms_from [] cs
      else cur # terms_from [] cs)"

definition unicode61 :: "string \<Rightarrow> string list option" where
  "unicode61 s =
     (if list_all (\<lambda>c. (of_char c :: nat) < 128) s then Some (terms_from [] s) else None)"

datatype parsed_query = SyntaxError | Beyond | Phrases "string list list"

definition fts_columns :: "string list" where
  "fts_columns = [''id'', ''title'', ''summary'', ''content'', ''tags'']"

text \<open>The phrases of a query read from the left, up to the first thing that is an error or
  is not modelled.\<close>

fun fts5_phrases :: "fts_token list \<Rightarrow> parsed_query" where
  "fts5_phrases [] = Phrases []"
| "fts5_phrases (FTS_STRING s # FTS_PUNCT c # rest) =
     (if c = CHR '':'' then (if toLowerCase s \<in> set fts_columns then Beyond else SyntaxError)
      else Beyond)"
| "fts5_phrases (FTS_STRING s # FTS_STRING s' # rest) =
     (case unicode61 s of
        None \<Rightarrow> Beyond
      | Some ts \<Rightarrow>
          if ts = [] then Beyond
          else (case fts5_phrases (FTS_STRING s' # rest) of
                  Phrases ps \<Rightarrow> Phrases (ts # ps) | other \<Rightarrow> other))"
| "fts5_phrases [FTS_STRING s] =
     (case unicode61 s of None \<Rightarrow> Beyond | Some ts \<Rightarrow> if ts = [] then Beyond else Phrases [ts])"
| "fts5_phrases (t # rest) = Beyond"

definition fts5_parse :: "string \<Rightarrow> parsed_query" where
  "fts5_parse q =
     (case fts5_lex Idle q of
        None \<Rightarrow> SyntaxError
      | Some [] \<Rightarrow> SyntaxError
      | Some toks \<Rightarrow> fts5_phrases toks)"

text \<open>\<open>JSON.stringify\<close> of the tag list, as stored in the \<open>tags\<close> column.\<close>

definition hex_digit :: "nat \<Rightarrow> char" where
  "hex_digit n = ''0123456789abcdef'' ! n"

definition json_char :: "char \<Rightarrow> string" where
  "json_char c =
     (if c = CHR 0x22 then [CHR 0x5C, CHR 0x22]
      else if c = CHR 0x5C then [CHR 0x5C, CHR 0x5C]
      else if c = CHR 0x08 then [CHR 0x5C, CHR ''b'']
      else if c = CHR 0x0C then [CHR 0x5C, CHR ''f'']
      else if c = CHR 0x0A then [CHR 0x5C, CHR ''n'']
      else if c = CHR 0x0D then [CHR 0x5C, CHR ''r'']
      else if c = CHR 0x09 then [CHR 0x5C, CHR ''t'']
      else if (of_char c :: nat) < 32
      then [CHR 0x5C, CHR ''u'', CHR ''0'', CHR ''0'', hex_digit (of_char c div 16), hex_digit (of_char c mod 16)]
      else [c])"

definition json_string :: "string \<Rightarrow> string" where
  "json_string s = [CHR 0x22] @ concat (map json_char s) @ [CHR 0x22]"

definition json_strings :: "string list \<Rightarrow> string" where
  "json_strings xs = ''['' @ join '','' (map json_string xs) @ '']''"

definition indexed_columns :: "Memory \<Rightarrow> string list" where
  "indexed_columns m = [title m, summary m, content m, json_strings (tags m)]"

definition row_terms :: "Memory \<Rightarrow> string list list option" where
  "row_terms m = those (map unicode61 (indexed_columns m))"

text \<open>The number of places where a phrase occurs in a column's terms.\<close>

definition occurrences :: "string list \<Rightarrow> string list \<Rightarrow> nat" where
  "occurrences p ts =
     length (filter (\<lambda>k. take (length p) (drop k ts) = p) (upt 0 (Suc (length ts - length p))))"

definition phrase_freq :: "string list \<Rightarrow> string list list \<Rightarrow> nat" where
  "phrase_freq p cols = sum_list (map (occurrences p) cols)"

definition row_size :: "string list list \<Rightarrow> nat" where
  "row_size cols = sum_list (map length cols)"

text \<open>\<open>bm25\<close> as FTS5 computes it (\<open>k1 = 1.2\<close>, \<open>b = 0.75\<close>, an inverse document frequency
  that is not positive replaced by \<open>1e-6\<close>); the rank is its negation.\<close>

definition idf :: "string list list list \<Rightarrow> string list \<Rightarrow> real" where
  "idf docs p =
     (let nRow = real (length docs);
          nHit = real (length (filter (\<lambda>cols. phrase_freq p cols > 0) docs));
          v = ln ((nRow - nHit + 0.5) / (nHit + 0.5))
      in if v \<le> 0 then 1 / 1000000 else v)"

definition bm25 :: "string list list list \<Rightarrow> string list list \<Rightarrow> string list list \<Rightarrow> real" where
  "bm25 docs ps cols =
     (let avgdl = real (sum_list (map row_size docs)) / real (length docs);
          D = real (row_size cols)
      in - sum_list (map (\<lambda>p.
             idf docs p * (real (phrase_freq p cols) * (1.2 + 1)) /
               (real (phrase_freq p cols) + 1.2 * (1 - 0.75 + 0.75 * D / avgdl))) ps))"

record SearchResult =
  memory :: Memory
  rank :: real

definition matches :: "string list list \<Rightarrow> string list list \<Rightarrow> bool" where
  "matches ps cols = list_all (\<lambda>p. phrase_freq p cols > 0) ps"

definition search :: "IndexDB \<Rightarrow> string \<Rightarrow> nat \<Rightarrow> failure + SearchResult list" where
  "search db query limit =
     (case fts5_parse query of
        SyntaxError \<Rightarrow> Inl SqliteError
      | Beyond \<Rightarrow> Inl OutsideModel
      | Phrases ps \<Rightarrow>
          (case those (map row_terms (memories db)) of
             None \<Rightarrow> Inl OutsideModel
           | Some docs \<Rightarrow>
               Inr (take limit (sort_key rank
                 (map (\<lambda>(m, cols). \<lparr> memory = rowToMemory m, rank = bm25 docs ps cols \<rparr>)
                    (filter (\<lambda>(m, cols). matches ps cols) (zip (memories db) docs)))))))"

section \<open>Stop hook (handler.ts) and \<open>mem_store\<close> (index.ts)\<close>

text \<open>
  The builtins and the sources of nondeterminism of one process, as parameters: the file
  system and \<open>JSON.parse\<close> for the transcript, the regular expression engine, the clock
  (\<open>env_clock k\<close> is the \<open>k\<close>-th reading in milliseconds, \<open>env_fmt\<close> renders it as
  \<open>toISOString\<close> does) and the ids drawn by \<open>uuidv4\<close>.  A session threads the database with
  the numbers of clock readings and of ids drawn so far.
\<close>

record env =
  env_readFile :: "string \<Rightarrow> string option"
  env_parse_line :: "string \<Rightarrow> line_value option"
  env_rx :: regex_engine
  env_fmt :: "int \<Rightarrow> string"
  env_clock :: "nat \<Rightarrow> int"
  env_uuid :: "nat \<Rightarrow> string"

record session =
  s_db :: IndexDB
  s_ticks :: nat
  s_drawn :: nat

definition now_iso :: "env \<Rightarrow> session \<Rightarrow> string" where
  "now_iso e s = env_fmt e (env_clock e (s_ticks s))"

definition db_insert :: "env \<Rightarrow> MemoryInput \<Rightarrow> session \<Rightarrow> failure + (Memory \<times> session)" where
  "db_insert e input s =
     (case insert_row (now_iso e s) (env_uuid e (s_drawn s)) input (s_db s) of
        Inl err \<Rightarrow> Inl err
      | Inr (m, db') \<Rightarrow>
          Inr (m, s\<lparr> s_db := db', s_ticks := s_ticks s + 1, s_drawn := s_drawn s + 1 \<rparr>))"

definition db_recordMetric :: "env \<Rightarrow> string \<Rightarrow> (string \<times> string) list \<Rightarrow> session \<Rightarrow> session" where
  "db_recordMetric e ev d s =
     s\<lparr> s_db := recordMetric (now_iso e s) ev d (s_db s), s_ticks := s_ticks s + 1 \<rparr>"

record HookInput =
  hook_session_id :: string
  transcript_path :: string
  stop_hook_active :: bool

text \<open>How a handler ends: \<open>process.exit(0)\<close>, or an exception that nothing catches before
  \<open>main().catch\<close> (exit code 1).  What was written to the database before it stays.\<close>

datatype outcome = Exit0 | Uncaught failure

text \<open>The two \<open>for\<close> loops of \<open>handleStop\<close>: a candidate is inserted when the search for its
  title returns no row.\<close>

fun insert_unless_found :: "env \<Rightarrow> MemoryInput list \<Rightarrow> session \<Rightarrow> failure option \<times> session" where
  "insert_unless_found e [] s = (None, s)"
| "insert_unless_found e (c # cs) s =
     (case search (s_db s) (in_title c) 1 of
        Inl err \<Rightarrow> (Some err, s)
      | Inr existing \<Rightarrow>
          if length existing = 0
          then (case db_insert e c s of
                  Inl err \<Rightarrow> (Some err, s)
                | Inr (m, s') \<Rightarrow> insert_unless_found e cs s')
          else insert_unless_found e cs s)"

definition show_bool :: "bool \<Rightarrow> string" where
  "show_bool b = (if b then ''true'' else ''false'')"

definition handleStop :: "env \<Rightarrow> HookInput \<Rightarrow> MichiMemConfig \<Rightarrow> IndexDB \<Rightarrow> outcome \<times> IndexDB" where
  "handleStop e input config db =
     (if stop_hook_active input then (Exit0, db)
      else
        case extractFromTranscript (env_readFile e) (env_parse_line e) (env_rx e) (env_fmt e)
               (env_clock e) (transcript_path input) config of
          Inl err \<Rightarrow> (Uncaught err, db)
        | Inr extracted \<Rightarrow>
            (let s0 = \<lparr> s_db = db, s_ticks = 2, s_drawn = 0 \<rparr> in
             case (case ex_diary extracted of
                     None \<Rightarrow> Inr s0
                   | Some d \<Rightarrow> (case db_insert e d s0 of Inl err \<Rightarrow> Inl err | Inr (m, s') \<Rightarrow> Inr s')) of
               Inl err \<Rightarrow> (Uncaught err, db)
             | Inr s1 \<Rightarrow>
                 (case insert_unless_found e (ex_corrections extracted) s1 of
                    (Some err, s2) \<Rightarrow> (Uncaught err, s_db s2)
                  | (None, s2) \<Rightarrow>
                      (case insert_unless_found e (ex_preferences extracted) s2 of
                         (Some err, s3) \<Rightarrow> (Uncaught err, s_db s3)
                       | (None, s3) \<Rightarrow>
                           (Exit0,
                            s_db (db_recordMetric e ''stop_extract''
                              [(''session_id'', hook_session_id input),
                               (''diary'', show_bool (ex_diary extracted \<noteq> None)),
                               (''corrections'', show_nat (length (ex_corrections extracted))),
                               (''preferences'', show_nat (length (ex_preferences extracted)))]
                              s3))))))"

subsection \<open>\<open>mem_store\<close>\<close>

text \<open>
  The arguments of the tool.  \<open>type\<close> is validated as one of the four types.  \<open>priority\<close> is
  validated as a number from 0 to 2 (\<open>z.number().min(0).max(2)\<close>), not as one of 0, 1, 2: a
  call with a number outside the range is refused before the handler runs, and a number
  in the range that is none of 0, 1, 2 reaches \<open>db.insert\<close>, where the column's
  \<open>CHECK(priority IN (0,1,2))\<close> makes the statement fail (after \<open>insert\<close> has read the
  clock and drawn an id).
\<close>

record StoreArgs =
  a_title :: string
  a_summary :: string
  a_content :: string
  a_type :: MemoryType
  a_priority :: rat
  a_tags :: "string list"

definition is_duplicate :: "StoreArgs \<Rightarrow> SearchResult \<Rightarrow> bool" where
  "is_duplicate a r =
     (toLowerCase (title (memory r)) = toLowerCase (a_title a) \<and> type_of (memory r) = a_type a)"

definition expiry_for :: "env \<Rightarrow> MichiMemConfig \<Rightarrow> rat \<Rightarrow> session \<Rightarrow> failure + (string option \<times> session)" where
  "expiry_for e config p s =
     (if p = 2 then
        (case toISOString (env_fmt e) (env_clock e (s_ticks s) + diary_days config * 86400000) of
           Inl err \<Rightarrow> Inl err
         | Inr t \<Rightarrow> Inr (Some t, s\<lparr>s_ticks := s_ticks s + 1\<rparr>))
      else if p = 1 then
        (case toISOString (env_fmt e) (env_clock e (s_ticks s) + insight_days config * 86400000) of
           Inl err \<Rightarrow> Inl err
         | Inr t \<Rightarrow> Inr (Some t, s\<lparr>s_ticks := s_ticks s + 1\<rparr>))
      else Inr (None, s))"

definition priority_of :: "rat \<Rightarrow> Priority option" where
  "priority_of p =
     (if p = 0 then Some P0 else if p = 1 then Some P1 else if p = 2 then Some P2 else None)"

definition mem_store :: "env \<Rightarrow> MichiMemConfig \<Rightarrow> StoreArgs \<Rightarrow> session \<Rightarrow> (failure + string) \<times> session" where
  "mem_store e config a s =
     (if a_priority a < 0 \<or> 2 < a_priority a then (Inl InvalidParams, s)
      else
        case search (s_db s) (a_title a) 3 of
          Inl err \<Rightarrow> (Inl err, s)
        | Inr existing \<Rightarrow>
            (case find (is_duplicate a) existing of
               Some duplicate \<Rightarrow>
                 (let i = id_of (memory duplicate);
                      db1 = snd (update (now_iso e s) i
                              (no_fields\<lparr> f_content := Some (a_content a), f_summary := Some (a_summary a) \<rparr>)
                              (s_db s));
                      s1 = db_recordMetric e ''store_update'' [(''id'', i)]
                             (s\<lparr> s_db := db1, s_ticks := s_ticks s + 1 \<rparr>)
                  in (Inr (''Updated existing memory: '' @ i), s1))
             | None \<Rightarrow>
                 (case expiry_for e config (a_priority a) s of
                    Inl err \<Rightarrow> (Inl err, s)
                  | Inr (expiresAt, s1) \<Rightarrow>
                      (case priority_of (a_priority a) of
                         None \<Rightarrow>
                           (Inl SqliteError, s1\<lparr> s_ticks := s_ticks s1 + 1, s_drawn := s_drawn s1 + 1 \<rparr>)
                       | Some p \<Rightarrow>
                           (case db_insert e
                                  \<lparr> in_type = a_type a, in_priority = p, in_title = a_title a,
                                    in_summary = a_summary a, in_content = a_content a,
                                    in_tags = Some (a_tags a), in_agent_id = None, in_source_ids = None,
                                    in_expires_at = expiresAt \<rparr> s1 of
                              Inl err \<Rightarrow> (Inl err, s1)
                            | Inr (m, s2) \<Rightarrow>
                                (Inr (''Stored memory: '' @ id_of m @ '' ('' @ type_name (a_type a) @ ''/P'' @
                                      priority_digit p @ '')''),
                                 db_recordMetric e ''store''
                                   [(''id'', id_of m), (''type'', type_name (a_type a)),
                                    (''priority'', priority_digit p)] s2))))))"

text \<open>A candidate whose title FTS5 rejects as a query.\<close>

definition unsearchable :: "MemoryInput \<Rightarrow> bool" where
  "unsearchable c = (fts5_parse (in_title c) = SyntaxError)"

section \<open>Sample data\<close>

definition mem_tabs :: Memory where
  "mem_tabs =
     \<lparr> id_of = ''a1'', type_of = Knowledge, priority = P0,
       title = ''Use tabs'', summary = ''prefer tabs'', content = ''tabs everywhere'',
       tags = [''style''], agent_id = [], source_ids = [],
       created_at = ''2026-01-01T00:00:00.000Z'', updated_at = ''2026-01-01T00:00:00.000Z'',
       expires_at = None \<rparr>"

definition mem_auth :: Memory where
  "mem_auth =
     \<lparr> id_of = ''b2'', type_of = Insight, priority = P1,
       title = ''Auth flow'', summary = ''tokens are rotated'', content = ''see the login module'',
       tags = [''auth''], agent_id = [], source_ids = [],
       created_at = ''2026-02-01T00:00:00.000Z'', updated_at = ''2026-02-03T00:00:00.000Z'',
       expires_at = Some ''2026-05-02T00:00:00.000Z'' \<rparr>"

definition mem_old :: Memory where
  "mem_old =
     \<lparr> id_of = ''c3'', type_of = Diary, priority = P2,
       title = ''Session: fix login'', summary = ''2 user msgs, 2 assistant msgs.'',
       content = ''**User**: fix login'',
       tags = [], agent_id = [], source_ids = [],
       created_at = ''2025-11-01T00:00:00.000Z'', updated_at = ''2025-11-01T00:00:00.000Z'',
       expires_at = Some ''2025-12-01T00:00:00.000Z'' \<rparr>"

definition mem_d1 :: Memory where
  "mem_d1 =
     \<lparr> id_of = ''d1'', type_of = Diary, priority = P2,
       title = ''Deployment pipeline'', summary = ''deployment failed twice'', content = ''log'',
       tags = [''deployment''], agent_id = [], source_ids = [],
       created_at = ''2026-02-01T00:00:00.000Z'', updated_at = ''2026-02-01T00:00:00.000Z'',
       expires_at = Some ''2026-03-03T00:00:00.000Z'' \<rparr>"

definition mem_blank :: Memory where
  "mem_blank =
     \<lparr> id_of = ''d2'', type_of = Diary, priority = P2,
       title = ''a b'', summary = ''c'', content = ''log'',
       tags = [], agent_id = [], source_ids = [],
       created_at = ''2026-02-02T00:00:00.000Z'', updated_at = ''2026-02-02T00:00:00.000Z'',
       expires_at = Some ''2026-03-04T00:00:00.000Z'' \<rparr>"

definition mem_d3 :: Memory where
  "mem_d3 =
     \<lparr> id_of = ''d3'', type_of = Diary, priority = P2,
       title = ''Fix deployment'', summary = ''rollback'', content = ''log'',
       tags = [''ops''], agent_id = [], source_ids = [],
       created_at = ''2026-02-03T00:00:00.000Z'', updated_at = ''2026-02-03T00:00:00.000Z'',
       expires_at = Some ''2026-03-05T00:00:00.000Z'' \<rparr>"

definition sample_db :: IndexDB where
  "sample_db = \<lparr> memories = [mem_tabs, mem_auth, mem_old], metrics = [] \<rparr>"

definition sample_config :: MichiMemConfig where
  "sample_config =
     \<lparr> data_dir = ''/data'', diary_days = 30, insight_days = 90, l0_budget = 8,
       l1_budget = 500, checkpoint_budget = 500, diary_threshold = 5, insight_threshold = 3 \<rparr>"

definition sample_input :: MemoryInput where
  "sample_input =
     \<lparr> in_type = Knowledge, in_priority = P0, in_title = ''Use spaces'',
       in_summary = ''two spaces'', in_content = ''indent with two spaces'',
       in_tags = None, in_agent_id = None, in_source_ids = None, in_expires_at = None \<rparr>"

definition sample_clock :: "nat \<Rightarrow> string" where
  "sample_clock k = ''2026-03-01T00:00:00.00'' @ [''0123456789'' ! (k mod 10)] @ ''Z''"





text \<open>
  A transcript of four messages and the builtins on it: \<open>parse_sample_line\<close> is \<open>JSON.parse\<close>
  on its lines, \<open>rx_sample\<close> lists the matches the patterns have in its texts (the first
  user message matches the first correction pattern at index 0 and the first preference
  pattern at index 10; nothing else matches).
\<close>

definition line_u1 :: string where
  "line_u1 = ''{\"role\":\"user\",\"content\":\"actually, always use tabs instead of spaces\"}''"

definition line_a1 :: string where
  "line_a1 = ''{\"role\":\"assistant\",\"content\":\"ok\"}''"

definition line_u2 :: string where
  "line_u2 = ''{\"role\":\"user\",\"content\":\"thanks\"}''"

definition line_a2 :: string where
  "line_a2 = ''{\"role\":\"assistant\",\"content\":\"done\"}''"

definition text_u1 :: string where
  "text_u1 = ''actually, always use tabs instead of spaces''"

definition msg_u1 :: TranscriptMessage where
  "msg_u1 = \<lparr> role = ''user'', msg_content = CString text_u1,
              content_json = ''\"actually, always use tabs instead of spaces\"'' \<rparr>"

definition msg_a1 :: TranscriptMessage where
  "msg_a1 = \<lparr> role = ''assistant'', msg_content = CString ''ok'', content_json = ''\"ok\"'' \<rparr>"

definition msg_u2 :: TranscriptMessage where
  "msg_u2 = \<lparr> role = ''user'', msg_content = CString ''thanks'', content_json = ''\"thanks\"'' \<rparr>"

definition msg_a2 :: TranscriptMessage where
  "msg_a2 = \<lparr> role = ''assistant'', msg_content = CString ''done'', content_json = ''\"done\"'' \<rparr>"

definition parse_sample_line :: "string \<Rightarrow> line_value option" where
  "parse_sample_line l =
     map_of [(line_u1, Message msg_u1), (line_a1, Message msg_a1), (line_u2, Message msg_u2),
             (line_a2, Message msg_a2), (''null'', Null)] l"

definition sample_fs :: "string \<Rightarrow> string option" where
  "sample_fs path =
     map_of
       [(''/t/four.jsonl'', line_u1 @ [CHR 0x0A] @ line_a1 @ [CHR 0x0A] @ line_u2 @ [CHR 0x0A] @ line_a2 @ [CHR 0x0A]),
        (''/t/three.jsonl'', line_u1 @ [CHR 0x0A] @ line_a1 @ [CHR 0x0A] @ line_u2 @ [CHR 0x0A]),
        (''/t/broken.jsonl'', line_u1 @ [CHR 0x0A] @ line_a1 @ [CHR 0x0A] @ line_u2 @ [CHR 0x0A] @ line_a2 @ [CHR 0x0A] @ ''{\"role\":''),
        (''/t/null.jsonl'', line_u1 @ [CHR 0x0A] @ line_a1 @ [CHR 0x0A] @ line_u2 @ [CHR 0x0A] @ ''null'' @ [CHR 0x0A])]
       path"

definition rx_sample :: regex_engine where
  "rx_sample p t =
     (if t = text_u1 \<and> p = CorrectionPattern
      then [\<lparr> m_index = 0, m_whole = text_u1, m_group = ''always use tabs instead of spaces'' \<rparr>]
      else if t = text_u1 \<and> p = PreferencePattern1
      then [\<lparr> m_index = 10, m_whole = ''always use tabs instead of spaces'',
               m_group = ''use tabs instead of spaces'' \<rparr>]
      else [])"

definition sample_clock_ms :: "nat \<Rightarrow> int" where
  "sample_clock_ms k = 1772323200000 + int k"

text \<open>The rendering of \<open>toISOString\<close> for the years 0000 to 9999 (days to civil date).\<close>

definition pad :: "nat \<Rightarrow> nat \<Rightarrow> string" where
  "pad w n = replicate (w - length (show_nat n)) (CHR ''0'') @ show_nat n"

definition iso_utc :: "int \<Rightarrow> string" where
  "iso_utc t =
     (let days = t div 86400000;
          ms = t mod 86400000;
          z = days + 719468;
          era = z div 146097;
          doe = z - era * 146097;
          yoe = (doe - doe div 1460 + doe div 36524 - doe div 146096) div 365;
          doy = doe - (365 * yoe + yoe div 4 - yoe div 100);
          mp = (5 * doy + 2) div 153;
          d = doy - (153 * mp + 2) div 5 + 1;
          m = (if mp < 10 then mp + 3 else mp - 9);
          y = yoe + era * 400 + (if m \<le> 2 then 1 else 0)
      in pad 4 (nat y) @ ''-'' @ pad 2 (nat m) @ ''-'' @ pad 2 (nat d) @ ''T'' @
         pad 2 (nat (ms div 3600000)) @ '':'' @ pad 2 (nat (ms mod 3600000 div 60000)) @ '':'' @
         pad 2 (nat (ms mod 60000 div 1000)) @ ''.'' @ pad 3 (nat (ms mod 1000)) @ ''Z'')"

definition sample_fmt :: "int \<Rightarrow> string" where
  "sample_fmt = iso_utc"

text \<open>The process of the examples: the sample transcript, patterns and clock, ids \<open>u0\<close>,
  \<open>u1\<close>, ...\<close>

definition sample_env :: env where
  "sample_env =
     \<lparr> env_readFile = sample_fs, env_parse_line = parse_sample_line, env_rx = rx_sample,
       env_fmt = sample_fmt, env_clock = sample_clock_ms, env_uuid = (\<lambda>k. ''u'' @ show_nat k) \<rparr>"

definition sample_hook :: HookInput where
  "sample_hook =
     \<lparr> hook_session_id = ''abc'', transcript_path = ''/t/four.jsonl'', stop_hook_active = False \<rparr>"

definition empty_db :: IndexDB where
  "empty_db = \<lparr> memories = [], metrics = [] \<rparr>"

definition sample_diary :: MemoryInput where
  "sample_diary =
     \<lparr> in_type = Diary, in_priority = P2,
       in_title = ''Session: actually, always use tabs instead of spaces'',
       in_summary = ''2 user msgs, 2 assistant msgs.'',
       in_content = ''**User**: actually, always use tabs instead of spaces'' @ [CHR 0x0A] @
                    ''**Assistant**: ok'' @ [CHR 0x0A] @ ''**User**: thanks'' @ [CHR 0x0A] @
                    ''**Assistant**: done'',
       in_tags = Some [], in_agent_id = None, in_source_ids = None,
       in_expires_at = Some ''2026-03-31T00:00:00.001Z'' \<rparr>"

definition sample_correction :: MemoryInput where
  "sample_correction =
     \<lparr> in_type = Knowledge, in_priority = P0,
       in_title = ''Correction: always use tabs instead of spaces'',
       in_summary = ''always use tabs instead of spaces'',
       in_content = ''Source: user correction (correction)'' @ [CHR 0x0A] @
                    ''Context: actually, always use tabs instead of spaces'',
       in_tags = Some [''correction'', ''correction''],
       in_agent_id = None, in_source_ids = None, in_expires_at = None \<rparr>"

definition sample_preference :: MemoryInput where
  "sample_preference =
     \<lparr> in_type = Knowledge, in_priority = P0,
       in_title = ''Preference: use tabs instead of spaces'',
       in_summary = ''use tabs instead of spaces'',
       in_content = ''Source: user preference'' @ [CHR 0x0A] @
                    ''Full context: actually, always use tabs instead of spaces'',
       in_tags = Some [''preference''],
       in_agent_id = None, in_source_ids = None, in_expires_at = None \<rparr>"

text \<open>
  A store with a diary, a knowledge and a shared record titled \<open>Auth flow\<close>, and a call of
  \<open>mem_store\<close> with that title and type insight, made twice: \<open>after_first\<close> and \<open>after_second\<close>
  are the reply and the state after the first and after the second call.
\<close>

definition auth_note :: "string \<Rightarrow> MemoryType \<Rightarrow> Memory" where
  "auth_note i t =
     \<lparr> id_of = i, type_of = t, priority = P0,
       title = ''Auth flow'', summary = ''s'', content = ''c'',
       tags = [], agent_id = [], source_ids = [],
       created_at = ''2026-01-01T00:00:00.000Z'', updated_at = ''2026-01-01T00:00:00.000Z'',
       expires_at = None \<rparr>"

definition notes_db :: IndexDB where
  "notes_db =
     \<lparr> memories = [auth_note ''k1'' Diary, auth_note ''k2'' Knowledge, auth_note ''k3'' Shared],
       metrics = [] \<rparr>"

definition first_call :: StoreArgs where
  "first_call =
     \<lparr> a_title = ''Auth flow'', a_summary = ''tokens are rotated'',
       a_content = ''see the login module'', a_type = Insight, a_priority = 1, a_tags = [] \<rparr>"

definition second_call :: StoreArgs where
  "second_call =
     \<lparr> a_title = ''Auth flow'', a_summary = ''tokens expire'', a_content = ''after one hour'',
       a_type = Insight, a_priority = 1, a_tags = [] \<rparr>"

definition after_first :: "(failure + string) \<times> session" where
  "after_first =
     mem_store sample_env sample_config first_call \<lparr> s_db = notes_db, s_ticks = 0, s_drawn = 0 \<rparr>"

definition after_second :: "(failure + string) \<times> session" where
  "after_second = mem_store sample_env sample_config second_call (snd after_first)"

text \<open>The terms the index holds for a row of \<open>notes_db\<close> and for the record the first call
  stores (title, summary, content, tags).\<close>

definition note_terms :: "string list list" where
  "note_terms = [[''auth'', ''flow''], [''s''], [''c''], []]"

definition stored_terms :: "string list list" where
  "stored_terms = [[''auth'', ''flow''], [''tokens'', ''are'', ''rotated''],
     [''see'', ''the'', ''login'', ''module''], []]"

text \<open>The row the first call stores, given the two timestamps.\<close>

definition stored_first :: "string \<Rightarrow> string \<Rightarrow> Memory" where
  "stored_first now ex = toMemory now ''u0''
     \<lparr> in_type = Insight, in_priority = P1, in_title = ''Auth flow'',
       in_summary = ''tokens are rotated'', in_content = ''see the login module'',
       in_tags = Some [], in_agent_id = None, in_source_ids = None,
       in_expires_at = Some ex \<rparr>"

section \<open>Store: theorems\<close>

lemma fold_assign_entries:
  "fold assign (entries fs @ [SetUpdatedAt now]) m = updated now fs m"
  by (simp add: entries_def updated_def split: option.splits)


lemma find_map_id:
  "(\<And>m. id_of (f m) = id_of m) \<Longrightarrow>
   find (\<lambda>m. id_of m = j) (map f ms) = map_option f (find (\<lambda>m. id_of m = j) ms)"
  by (induction ms) auto

lemma find_append:
  "find P (xs @ ys) = (case find P xs of None \<Rightarrow> find P ys | Some x \<Rightarrow> Some x)"
  by (induction xs) auto

lemma run_update_updated:
  "run_update (entries fs @ [SetUpdatedAt now]) i rows =
     map (\<lambda>m. if id_of m = i then updated now fs m else m) rows"
  unfolding run_update_def by (simp only: fold_assign_entries)

lemma row_by_id_update:
  "row_by_id (snd (update now i fs db)) j =
     map_option (\<lambda>m. if id_of m = i then updated now fs m else m) (row_by_id db j)"
proof -
  have "\<And>m. id_of (if id_of m = i then updated now fs m else m) = id_of m"
    by (simp add: updated_def)
  then show ?thesis
    by (simp add: row_by_id_def update_def Let_def run_update_updated find_map_id)
qed

lemma row_by_id_Some_id: "row_by_id db j = Some m \<Longrightarrow> id_of m = j"
  by (auto simp: row_by_id_def find_Some_iff)

lemma update_changed: "fst (update now i fs db) = (row_by_id db i \<noteq> None)"
  by (auto simp: update_def row_by_id_def Let_def find_None_iff filter_empty_conv)

lemma update_missing: "row_by_id db i = None \<Longrightarrow> update now i fs db = (False, db)"
proof -
  assume a: "row_by_id db i = None"
  then have "\<forall>m\<in>set (memories db). id_of m \<noteq> i"
    by (auto simp: row_by_id_def find_None_iff)
  then have "map (\<lambda>m. if id_of m = i then updated now fs m else m) (memories db) = memories db"
    by (induction "memories db") (auto simp: map_idI)
  with a show ?thesis
    using update_changed[of now i fs db]
    by (simp add: update_def Let_def run_update_updated)
qed

text \<open>
  C8.  For a record that exists, \<open>update\<close> returns true and rewrites exactly the listed
  fields and \<open>updated_at\<close>; with \<open>priority\<close> alone the row differs from the old one in
  \<open>priority\<close> and \<open>updated_at\<close> only, so \<open>expires_at\<close> is not recomputed.  Every other row
  and the metric log are untouched, and for an id without a row the call returns false
  and changes nothing.
\<close>

theorem update_frame:
  "(row_by_id db i = Some m \<longrightarrow>
      fst (update now i fs db) \<and>
      row_by_id (snd (update now i fs db)) i = Some (updated now fs m) \<and>
      row_by_id (snd (update now i (no_fields\<lparr>f_priority := Some p\<rparr>) db)) i
        = Some (m\<lparr>priority := p, updated_at := now\<rparr>)) \<and>
   (row_by_id db i = None \<longrightarrow> update now i fs db = (False, db)) \<and>
   (\<forall>j. j \<noteq> i \<longrightarrow> row_by_id (snd (update now i fs db)) j = row_by_id db j) \<and>
   metrics (snd (update now i fs db)) = metrics db"
proof (intro conjI impI allI)
  assume g: "row_by_id db i = Some m"
  then have i: "id_of m = i" by (rule row_by_id_Some_id)
  from g show "fst (update now i fs db)" by (simp add: update_changed)
  from g i show "row_by_id (snd (update now i fs db)) i = Some (updated now fs m)"
    by (simp add: row_by_id_update)
  from g i show "row_by_id (snd (update now i (no_fields\<lparr>f_priority := Some p\<rparr>) db)) i
        = Some (m\<lparr>priority := p, updated_at := now\<rparr>)"
    by (simp add: row_by_id_update updated_def no_fields_def)
next
  assume "row_by_id db i = None"
  then show "update now i fs db = (False, db)" by (rule update_missing)
next
  fix j assume "j \<noteq> i"
  then show "row_by_id (snd (update now i fs db)) j = row_by_id db j"
    by (cases "row_by_id db j") (auto simp: row_by_id_update dest: row_by_id_Some_id)
next
  show "metrics (snd (update now i fs db)) = metrics db"
    by (simp add: update_def Let_def)
qed

theorem update_frame_witness:
  "row_by_id sample_db ''b2'' = Some mem_auth \<and>
   fst (update ''2026-03-01T00:00:00.000Z'' ''b2'' (no_fields\<lparr>f_priority := Some P0\<rparr>) sample_db) \<and>
   row_by_id (snd (update ''2026-03-01T00:00:00.000Z'' ''b2'' (no_fields\<lparr>f_priority := Some P0\<rparr>) sample_db)) ''b2''
     = Some (mem_auth\<lparr>priority := P0, updated_at := ''2026-03-01T00:00:00.000Z''\<rparr>) \<and>
   expires_at (mem_auth\<lparr>priority := P0, updated_at := ''2026-03-01T00:00:00.000Z''\<rparr>)
     = Some ''2026-05-02T00:00:00.000Z'' \<and>
   row_by_id (snd (update ''2026-03-01T00:00:00.000Z'' ''b2'' (no_fields\<lparr>f_priority := Some P0\<rparr>) sample_db)) ''a1''
     = Some mem_tabs \<and>
   row_by_id sample_db ''zz'' = None \<and>
   update ''2026-03-01T00:00:00.000Z'' ''zz'' (no_fields\<lparr>f_priority := Some P0\<rparr>) sample_db = (False, sample_db)"
proof -
  have g: "row_by_id sample_db ''b2'' = Some mem_auth"
    by (simp add: row_by_id_def sample_db_def mem_tabs_def mem_auth_def)
  have a: "row_by_id sample_db ''a1'' = Some mem_tabs"
    by (simp add: row_by_id_def sample_db_def mem_tabs_def)
  have z: "row_by_id sample_db ''zz'' = None"
    by (simp add: row_by_id_def sample_db_def mem_tabs_def mem_auth_def mem_old_def)
  have e: "expires_at mem_auth = Some ''2026-05-02T00:00:00.000Z''"
    by (simp add: mem_auth_def)
  note u = update_frame [of sample_db "''b2''" mem_auth "''2026-03-01T00:00:00.000Z''"
        "no_fields\<lparr>f_priority := Some P0\<rparr>" P0]
  have u1: "fst (update ''2026-03-01T00:00:00.000Z'' ''b2'' (no_fields\<lparr>f_priority := Some P0\<rparr>) sample_db)"
    using u g by blast
  have u2: "row_by_id (snd (update ''2026-03-01T00:00:00.000Z'' ''b2'' (no_fields\<lparr>f_priority := Some P0\<rparr>) sample_db)) ''b2''
     = Some (mem_auth\<lparr>priority := P0, updated_at := ''2026-03-01T00:00:00.000Z''\<rparr>)"
    using u g by blast
  have "''a1'' \<noteq> ''b2''" by simp
  then have u3: "row_by_id (snd (update ''2026-03-01T00:00:00.000Z'' ''b2'' (no_fields\<lparr>f_priority := Some P0\<rparr>) sample_db)) ''a1''
     = Some mem_tabs"
    using u a by metis
  have u4: "update ''2026-03-01T00:00:00.000Z'' ''zz'' (no_fields\<lparr>f_priority := Some P0\<rparr>) sample_db = (False, sample_db)"
    using z update_frame [of sample_db "''zz''" mem_auth "''2026-03-01T00:00:00.000Z''"
        "no_fields\<lparr>f_priority := Some P0\<rparr>" P0]
    by blast
  show ?thesis using g z e u1 u2 u3 u4 by simp
qed

text \<open>
  C10.  Whenever \<open>insert\<close> returns a Memory, its \<open>created_at\<close> and \<open>updated_at\<close> are the
  one clock reading taken at the start of the call, and the row then stored under its id
  is that Memory, which \<open>getById\<close> reads back through \<open>rowToMemory\<close>.  The call returns one
  whenever the drawn id is not yet in the table.
\<close>

theorem insert_created_eq_updated:
  "(uuid \<notin> set (map id_of (memories db)) \<longrightarrow> (\<exists>m db'. insert_row now uuid input db = Inr (m, db'))) \<and>
   (\<forall>m db'. insert_row now uuid input db = Inr (m, db') \<longrightarrow>
      created_at m = updated_at m \<and> updated_at m = now \<and>
      memories db' = memories db @ [m] \<and>
      row_by_id db' (id_of m) = Some m \<and>
      getById db' (id_of m) = Some (rowToMemory m))"
proof (intro conjI impI allI)
  assume "uuid \<notin> set (map id_of (memories db))"
  then show "\<exists>m db'. insert_row now uuid input db = Inr (m, db')"
    by (simp add: insert_row_def Let_def)
next
  fix m db'
  assume a: "insert_row now uuid input db = Inr (m, db')"
  then have fresh: "uuid \<notin> set (map id_of (memories db))"
    and m: "m = toMemory now uuid input"
    and db': "db' = db\<lparr>memories := memories db @ [m]\<rparr>"
    by (auto simp: insert_row_def Let_def split: if_splits)
  from m show "created_at m = updated_at m" by (simp add: toMemory_def)
  from m show "updated_at m = now" by (simp add: toMemory_def)
  from db' show "memories db' = memories db @ [m]" by simp
  have "id_of m = uuid" using m by (simp add: toMemory_def)
  moreover have "find (\<lambda>r. id_of r = uuid) (memories db) = None"
    using fresh by (auto simp: find_None_iff)
  ultimately have r: "row_by_id db' (id_of m) = Some m"
    using db' by (simp add: row_by_id_def find_append)
  then show "row_by_id db' (id_of m) = Some m" .
  from r show "getById db' (id_of m) = Some (rowToMemory m)" by (simp add: getById_def)
qed

theorem insert_created_eq_updated_witness:
  "(\<exists>m db'. insert_row ''2026-03-01T00:00:00.000Z'' ''d4'' sample_input sample_db = Inr (m, db') \<and>
      created_at m = ''2026-03-01T00:00:00.000Z'' \<and> updated_at m = ''2026-03-01T00:00:00.000Z'' \<and>
      row_by_id db' ''d4'' = Some m)"
proof -
  have fresh: "''d4'' \<notin> set (map id_of (memories sample_db))"
    by (simp add: sample_db_def mem_tabs_def mem_auth_def mem_old_def)
  with insert_created_eq_updated [of "''d4''" sample_db "''2026-03-01T00:00:00.000Z''" sample_input]
  obtain m db' where
    i: "insert_row ''2026-03-01T00:00:00.000Z'' ''d4'' sample_input sample_db = Inr (m, db')"
    by blast
  with insert_created_eq_updated [of "''d4''" sample_db "''2026-03-01T00:00:00.000Z''" sample_input]
  have "created_at m = updated_at m" "updated_at m = ''2026-03-01T00:00:00.000Z''"
    "row_by_id db' (id_of m) = Some m"
    by blast+
  moreover have "id_of m = ''d4''"
    using i by (auto simp: insert_row_def toMemory_def Let_def split: if_splits)
  ultimately show ?thesis using i by auto
qed

section \<open>Tiering: theorems\<close>

lemma estimateTokens_nonneg: "0 \<le> estimateTokens t"
  by (simp add: estimateTokens_def)

lemma estimateTokens_div: "estimateTokens t = (int (length t) + 3) div 4"
proof -
  have "of_nat (length t) / (4 :: rat) = of_int (int (length t)) / of_int 4" by simp
  then have "estimateTokens t = - (- int (length t) div 4)"
    unfolding estimateTokens_def by (simp only: ceiling_divide_eq_div)
  then show ?thesis by linarith
qed

lemma emit_invariant:
  "est = tokens_total rs \<Longrightarrow> (rs \<noteq> [] \<longrightarrow> est \<le> budget) \<Longrightarrow> emit budget ms (rs, est) = (rs', est') \<Longrightarrow>
     est' = tokens_total rs' \<and> (rs' \<noteq> [] \<longrightarrow> est' \<le> budget)"
proof (induction ms arbitrary: rs est)
  case Nil
  then show ?case by auto
next
  case (Cons m ms)
  show ?case
  proof (cases "est + estimateTokens (l0_line m) > budget")
    case True
    with Cons.prems show ?thesis by (auto simp add: Let_def)
  next
    case False
    with Cons.prems(3) have e: "emit budget ms (rs @ [toTiered m (l0_line m)], est + estimateTokens (l0_line m)) = (rs', est')"
      by (simp add: Let_def)
    have "est + estimateTokens (l0_line m) = tokens_total (rs @ [toTiered m (l0_line m)])"
      using Cons.prems(1) by (simp add: tokens_total_def toTiered_def)
    moreover have "est + estimateTokens (l0_line m) \<le> budget" using False by simp
    ultimately show ?thesis using Cons.IH[OF _ _ e] by blast
  qed
qed

lemma emit_lines:
  "emit budget ms (rs, est) = (rs', est') \<Longrightarrow>
     \<exists>ks. rs' = rs @ map (\<lambda>m. toTiered m (l0_line m)) ks \<and> set ks \<subseteq> set ms"
proof (induction ms arbitrary: rs est)
  case Nil
  then show ?case by auto
next
  case (Cons m ms)
  show ?case
  proof (cases "est + estimateTokens (l0_line m) > budget")
    case True
    with Cons.prems show ?thesis by (auto simp add: Let_def)
  next
    case False
    with Cons.prems have e: "emit budget ms (rs @ [toTiered m (l0_line m)], est + estimateTokens (l0_line m)) = (rs', est')"
      by (simp add: Let_def)
    from Cons.IH[OF e] obtain ks where
      "rs' = (rs @ [toTiered m (l0_line m)]) @ map (\<lambda>m. toTiered m (l0_line m)) ks" "set ks \<subseteq> set ms"
      by blast
    then have "rs' = rs @ map (\<lambda>m. toTiered m (l0_line m)) (m # ks) \<and> set (m # ks) \<subseteq> set (m # ms)"
      by auto
    then show ?thesis by blast
  qed
qed

lemma cumulative_le_total: "cumulative rs k \<le> tokens_total rs"
proof -
  have "tokens_total rs = cumulative rs k + tokens_total (drop k rs)"
    unfolding tokens_total_def cumulative_def
    by (metis append_take_drop_id map_append sum_list_append)
  moreover have "0 \<le> tokens_total (drop k rs)"
    unfolding tokens_total_def by (rule sum_list_nonneg) (auto simp: estimateTokens_nonneg)
  ultimately show ?thesis by simp
qed

lemma buildL0_total:
  "buildL0 db config \<noteq> [] \<Longrightarrow> tokens_total (buildL0 db config) \<le> l0_budget config"
proof -
  let ?b = "l0_budget config"
  obtain r1 e1 where s1: "emit ?b (getByPriority db P0 20) ([], 0) = (r1, e1)" by force
  obtain r2 e2 where s2: "emit ?b (getByType db Insight 10) (r1, e1) = (r2, e2)" by force
  obtain r3 e3 where s3: "emit ?b (getByType db Shared 5) (r2, e2) = (r3, e3)" by force
  have i1: "e1 = tokens_total r1 \<and> (r1 \<noteq> [] \<longrightarrow> e1 \<le> ?b)"
    by (rule emit_invariant[OF _ _ s1]) (simp_all add: tokens_total_def)
  have i2: "e2 = tokens_total r2 \<and> (r2 \<noteq> [] \<longrightarrow> e2 \<le> ?b)"
    using i1 by (intro emit_invariant[OF _ _ s2]) blast+
  have i3: "e3 = tokens_total r3 \<and> (r3 \<noteq> [] \<longrightarrow> e3 \<le> ?b)"
    using i2 by (intro emit_invariant[OF _ _ s3]) blast+
  have "buildL0 db config = r3" by (simp add: buildL0_def s1 s2 s3)
  then show "buildL0 db config \<noteq> [] \<Longrightarrow> tokens_total (buildL0 db config) \<le> l0_budget config"
    using i3 by blast
qed

lemma rowToMemory_fields:
  "id_of (rowToMemory r) = id_of r" "title (rowToMemory r) = title r"
  "summary (rowToMemory r) = summary r" "type_of (rowToMemory r) = type_of r"
  "priority (rowToMemory r) = priority r" "created_at (rowToMemory r) = created_at r"
  "updated_at (rowToMemory r) = updated_at r" "content (rowToMemory r) = content r"
  "tags (rowToMemory r) = tags r"
  by (simp_all add: rowToMemory_def)

lemma set_newest_first: "set (newest_first ms) = set ms"
  by (simp add: newest_first_def)

lemma set_getByPriority: "set (getByPriority db p n) \<subseteq> rowToMemory ` set (memories db)"
proof -
  have "set (take n (newest_first (filter (\<lambda>m. priority m = p) (memories db)))) \<subseteq> set (memories db)"
    using set_take_subset [of n "newest_first (filter (\<lambda>m. priority m = p) (memories db))"]
    by (auto simp: set_newest_first)
  then show ?thesis unfolding getByPriority_def by auto
qed

lemma set_getByType: "set (getByType db t n) \<subseteq> rowToMemory ` set (memories db)"
proof -
  have "set (take n (newest_first (filter (\<lambda>m. type_of m = t) (memories db)))) \<subseteq> set (memories db)"
    using set_take_subset [of n "newest_first (filter (\<lambda>m. type_of m = t) (memories db))"]
    by (auto simp: set_newest_first)
  then show ?thesis unfolding getByType_def by auto
qed

lemma buildL0_lines:
  "r \<in> set (buildL0 db config) \<Longrightarrow> \<exists>m\<in>set (memories db). text_of r = title m @ '': '' @ summary m"
proof -
  let ?b = "l0_budget config"
  let ?f = "\<lambda>m. toTiered m (l0_line m)"
  assume r: "r \<in> set (buildL0 db config)"
  obtain r1 e1 where s1: "emit ?b (getByPriority db P0 20) ([], 0) = (r1, e1)" by force
  obtain r2 e2 where s2: "emit ?b (getByType db Insight 10) (r1, e1) = (r2, e2)" by force
  obtain r3 e3 where s3: "emit ?b (getByType db Shared 5) (r2, e2) = (r3, e3)" by force
  from emit_lines[OF s1] obtain k1 where k1: "r1 = map ?f k1" "set k1 \<subseteq> set (getByPriority db P0 20)" by auto
  from emit_lines[OF s2] obtain k2 where k2: "r2 = r1 @ map ?f k2" "set k2 \<subseteq> set (getByType db Insight 10)" by auto
  from emit_lines[OF s3] obtain k3 where k3: "r3 = r2 @ map ?f k3" "set k3 \<subseteq> set (getByType db Shared 5)" by auto
  have "buildL0 db config = r3" by (simp add: buildL0_def s1 s2 s3)
  with r k1 k2 k3 obtain m where m: "m \<in> set k1 \<union> set k2 \<union> set k3" "r = ?f m" by auto
  then have "m \<in> rowToMemory ` set (memories db)"
    using k1(2) k2(2) k3(2) set_getByPriority[of db P0 20] set_getByType[of db Insight 10] set_getByType[of db Shared 5]
    by blast
  then obtain row where row: "row \<in> set (memories db)" "m = rowToMemory row" by blast
  have "text_of r = title row @ '': '' @ summary row"
    using m(2) row(2) by (simp add: toTiered_def l0_line_def rowToMemory_fields)
  with row(1) show ?thesis by blast
qed

lemma buildL0_sample:
  "buildL0 sample_db sample_config = [toTiered mem_tabs ''Use tabs: prefer tabs'']"
  by (simp add: buildL0_def sample_db_def sample_config_def getByPriority_def getByType_def newest_first_def
       mem_tabs_def mem_auth_def mem_old_def l0_line_def estimateTokens_div Let_def rowToMemory_def
       toTiered_def)

text \<open>
  C3.  The three loops of \<open>buildL0\<close> share one running estimate: after each emitted
  entry the sum of \<open>ceil(length(text) / 4)\<close> over the entries emitted so far is within
  \<open>tokens.l0_budget\<close>, and for a budget that is not negative so is the sum over the
  whole result (under a negative budget nothing is emitted).  Each entry's text is
  \<open>title: summary\<close> of a stored record.
\<close>

theorem buildL0_within_budget:
  "(\<forall>k. 0 < k \<and> k \<le> length (buildL0 db config) \<longrightarrow>
        cumulative (buildL0 db config) k \<le> l0_budget config) \<and>
   (0 \<le> l0_budget config \<longrightarrow> tokens_total (buildL0 db config) \<le> l0_budget config) \<and>
   (l0_budget config < 0 \<longrightarrow> buildL0 db config = []) \<and>
   (\<forall>r \<in> set (buildL0 db config).
      \<exists>m \<in> set (memories db). text_of r = title m @ '': '' @ summary m)"
proof (intro conjI allI impI ballI)
  fix k
  assume "0 < k \<and> k \<le> length (buildL0 db config)"
  then have "buildL0 db config \<noteq> []" by auto
  then have "tokens_total (buildL0 db config) \<le> l0_budget config" by (rule buildL0_total)
  with cumulative_le_total [of "buildL0 db config" k]
  show "cumulative (buildL0 db config) k \<le> l0_budget config" by linarith
next
  assume nonneg: "0 \<le> l0_budget config"
  show "tokens_total (buildL0 db config) \<le> l0_budget config"
  proof (cases "buildL0 db config = []")
    case True
    with nonneg show ?thesis by (simp add: tokens_total_def)
  next
    case False
    then show ?thesis by (rule buildL0_total)
  qed
next
  assume neg: "l0_budget config < 0"
  show "buildL0 db config = []"
  proof (rule ccontr)
    assume "buildL0 db config \<noteq> []"
    then have "tokens_total (buildL0 db config) \<le> l0_budget config" by (rule buildL0_total)
    moreover have "0 \<le> tokens_total (buildL0 db config)"
      unfolding tokens_total_def by (rule sum_list_nonneg) (auto simp: estimateTokens_nonneg)
    ultimately show False using neg by linarith
  qed
next
  fix r
  assume "r \<in> set (buildL0 db config)"
  then show "\<exists>m \<in> set (memories db). text_of r = title m @ '': '' @ summary m"
    by (rule buildL0_lines)
qed

theorem buildL0_within_budget_witness:
  "buildL0 sample_db sample_config = [toTiered mem_tabs ''Use tabs: prefer tabs''] \<and>
   0 \<le> l0_budget sample_config \<and>
   cumulative (buildL0 sample_db sample_config) 1 \<le> l0_budget sample_config \<and>
   tokens_total (buildL0 sample_db sample_config) \<le> l0_budget sample_config"
proof -
  have n: "0 \<le> l0_budget sample_config" by (simp add: sample_config_def)
  have l: "0 < (1::nat) \<and> 1 \<le> length (buildL0 sample_db sample_config)"
    by (simp add: buildL0_sample)
  from n l buildL0_within_budget [of sample_db sample_config] buildL0_sample
  show ?thesis by blast
qed

section \<open>Clustering: theorems\<close>

lemma gather_Cons:
  "gather w (other # rest) (g, A) =
     (if id_of other \<in> A \<or> \<not> joins w other then gather w rest (g, A)
      else gather w rest (g @ [other], insert (id_of other) A))"
  by (simp add: joins_def Let_def)


lemma gather_inv:
  assumes "gather w rest (g, A) = (g', A')"
    and "distinct (map id_of (P @ g))" and "id_of ` set (P @ g) = A"
    and "set rest \<subseteq> S" and "set (P @ g) \<subseteq> S"
  shows "distinct (map id_of (P @ g')) \<and> id_of ` set (P @ g') = A' \<and> set (P @ g') \<subseteq> S \<and>
         (\<exists>ks. g' = g @ ks \<and> (\<forall>n \<in> set ks. joins w n))"
  using assms
proof (induction rest arbitrary: g A)
  case Nil
  then show ?case by auto
next
  case (Cons other rest)
  show ?case
  proof (cases "id_of other \<in> A \<or> \<not> joins w other")
    case True
    then have "gather w rest (g, A) = (g', A')"
      using Cons.prems(1) by (simp only: gather_Cons if_True)
    then show ?thesis
      using Cons.IH[of g A] Cons.prems by auto
  next
    case False
    then have e: "gather w rest (g @ [other], insert (id_of other) A) = (g', A')"
      using Cons.prems(1) by (simp only: gather_Cons if_False)
    have d: "distinct (map id_of (P @ g @ [other]))"
      using False Cons.prems(2,3) by auto
    have i: "id_of ` set (P @ g @ [other]) = insert (id_of other) A"
      using Cons.prems(3) by auto
    have s: "set (P @ g @ [other]) \<subseteq> S" "set rest \<subseteq> S"
      using Cons.prems(4,5) by auto
    from Cons.IH[OF e] d i s
    have r: "distinct (map id_of (P @ g')) \<and> id_of ` set (P @ g') = A' \<and> set (P @ g') \<subseteq> S \<and>
         (\<exists>ks. g' = (g @ [other]) @ ks \<and> (\<forall>n \<in> set ks. joins w n))"
      by simp
    then obtain ks where "g' = (g @ [other]) @ ks" "\<forall>n \<in> set ks. joins w n"
      by blast
    then have "g' = g @ (other # ks) \<and> (\<forall>n \<in> set (other # ks). joins w n)"
      using False by auto
    then show ?thesis using r by blast
  qed
qed

lemma seeds_inv:
  assumes "seeds all rest (gs, A) = (gs', A')"
    and "distinct (map id_of (concat gs))" and "id_of ` set (concat gs) = A"
    and "set rest \<subseteq> set all" and "set (concat gs) \<subseteq> set all"
    and "\<forall>g \<in> set gs. well_seeded g"
  shows "distinct (map id_of (concat gs')) \<and> id_of ` set (concat gs') = A' \<and>
         set (concat gs') \<subseteq> set all \<and> id_of ` set rest \<subseteq> A' \<and> A \<subseteq> A' \<and>
         (\<forall>g \<in> set gs'. well_seeded g)"
  using assms
proof (induction rest arbitrary: gs A)
  case Nil
  then show ?case by auto
next
  case (Cons mem rest)
  show ?case
  proof (cases "id_of mem \<in> A")
    case True
    then have e: "seeds all rest (gs, A) = (gs', A')"
      using Cons.prems(1) by simp
    from Cons.IH[OF e Cons.prems(2,3) _ Cons.prems(5,6)] Cons.prems(4)
    have r: "distinct (map id_of (concat gs')) \<and> id_of ` set (concat gs') = A' \<and>
         set (concat gs') \<subseteq> set all \<and> id_of ` set rest \<subseteq> A' \<and> A \<subseteq> A' \<and>
         (\<forall>g \<in> set gs'. well_seeded g)" by simp
    then show ?thesis using True by auto
  next
    case False
    obtain g1 A1 where g: "gather (extractWords mem) all ([mem], insert (id_of mem) A) = (g1, A1)"
      by force
    then have e: "seeds all rest (gs @ [g1], A1) = (gs', A')"
      using Cons.prems(1) False by (simp add: Let_def)
    have d0: "distinct (map id_of (concat gs @ [mem]))"
      using False Cons.prems(2,3) by auto
    have i0: "id_of ` set (concat gs @ [mem]) = insert (id_of mem) A"
      using Cons.prems(3) by auto
    have s0: "set (concat gs @ [mem]) \<subseteq> set all"
      using Cons.prems(4,5) by auto
    from gather_inv[OF g d0 i0 subset_refl s0]
    obtain ks where gi: "distinct (map id_of (concat gs @ g1))" "id_of ` set (concat gs @ g1) = A1"
      "set (concat gs @ g1) \<subseteq> set all" "g1 = [mem] @ ks"
      "\<forall>n \<in> set ks. joins (extractWords mem) n"
      by blast
    have w: "well_seeded g1" using gi(4,5) by (simp add: well_seeded_def)
    have "distinct (map id_of (concat (gs @ [g1])))" "id_of ` set (concat (gs @ [g1])) = A1"
      "set (concat (gs @ [g1])) \<subseteq> set all" "\<forall>g \<in> set (gs @ [g1]). well_seeded g"
      using gi(1,2,3) w Cons.prems(6) by auto
    from Cons.IH[OF e this(1,2) _ this(3,4)] Cons.prems(4)
    have r: "distinct (map id_of (concat gs')) \<and> id_of ` set (concat gs') = A' \<and>
         set (concat gs') \<subseteq> set all \<and> id_of ` set rest \<subseteq> A' \<and> A1 \<subseteq> A' \<and>
         (\<forall>g \<in> set gs'. well_seeded g)" by simp
    moreover have "id_of mem \<in> A1" using gi(2,4) by auto
    moreover have "A \<subseteq> A1" using gi(2) Cons.prems(3) by auto
    ultimately show ?thesis by auto
  qed
qed

lemma groupByOverlap_inv:
  "distinct (map id_of (concat (groupByOverlap ms))) \<and>
   id_of ` set (concat (groupByOverlap ms)) = id_of ` set ms \<and>
   set (concat (groupByOverlap ms)) \<subseteq> set ms \<and>
   (\<forall>g \<in> set (groupByOverlap ms). well_seeded g)"
proof (cases "ms = []")
  case True
  then show ?thesis by (simp add: groupByOverlap_def)
next
  case False
  obtain gs A where s: "seeds ms ms ([], {}) = (gs, A)" by force
  from seeds_inv[OF s] have
    "distinct (map id_of (concat gs)) \<and> id_of ` set (concat gs) = A \<and>
         set (concat gs) \<subseteq> set ms \<and> id_of ` set ms \<subseteq> A \<and> {} \<subseteq> A \<and>
         (\<forall>g \<in> set gs. well_seeded g)" by simp
  moreover have "groupByOverlap ms = gs" using False s by (simp add: groupByOverlap_def)
  ultimately show ?thesis by auto
qed

lemma group_index_unique:
  "distinct (concat gs) \<Longrightarrow> i < length gs \<Longrightarrow> j < length gs \<Longrightarrow>
   m \<in> set (gs ! i) \<Longrightarrow> m \<in> set (gs ! j) \<Longrightarrow> i = j"
proof (induction gs arbitrary: i j)
  case Nil
  then show ?case by simp
next
  case (Cons g gs)
  have disj: "set g \<inter> set (concat gs) = {}" and d: "distinct (concat gs)"
    using Cons.prems(1) by auto
  have later: "\<And>k. k < length gs \<Longrightarrow> m \<in> set (gs ! k) \<Longrightarrow> m \<in> set (concat gs)"
    using nth_mem by fastforce
  show ?case
  proof (cases i)
    case 0
    show ?thesis
    proof (cases j)
      case 0
      with \<open>i = 0\<close> show ?thesis by simp
    next
      case (Suc j')
      with Cons.prems 0 later[of j'] disj show ?thesis by auto
    qed
  next
    case (Suc i')
    show ?thesis
    proof (cases j)
      case 0
      with Cons.prems Suc later[of i'] disj show ?thesis by auto
    next
      case (Suc j')
      with Cons.prems \<open>i = Suc i'\<close> Cons.IH[OF d, of i' j'] show ?thesis by auto
    qed
  qed
qed

lemma exactly_one_group:
  assumes "distinct (concat gs)" and "m \<in> set (concat gs)"
  shows "\<exists>!i. i < length gs \<and> m \<in> set (gs ! i)"
proof -
  from assms(2) obtain g where "g \<in> set gs" "m \<in> set g" by auto
  then obtain i where "i < length gs" "m \<in> set (gs ! i)"
    by (auto simp: in_set_conv_nth)
  then show ?thesis
    using group_index_unique[OF assms(1)] by blast
qed

lemma lone_group:
  assumes w: "well_seeded g" and m: "m \<in> set g" and e: "extractWords m = {}"
  shows "g = [m]"
proof -
  from w obtain h t where g: "g = h # t" by (cases g) (auto simp: well_seeded_def)
  have nj: "\<And>a. \<not> joins a m" using e by (simp add: joins_def computeOverlap_def)
  have "m \<notin> set t" using w g nj by (auto simp: well_seeded_def)
  with m g have h: "h = m" by auto
  have "\<And>n. \<not> joins (extractWords m) n" using e by (simp add: joins_def computeOverlap_def)
  with w g h have "t = []" by (cases t) (auto simp: well_seeded_def)
  with g h show ?thesis by simp
qed

lemma computeOverlap_empty:
  "a = {} \<or> b = {} \<Longrightarrow> computeOverlap a b = 0"
  by (auto simp: computeOverlap_def)

text \<open>
  C4.  \<open>groupByOverlap\<close> is a function of its input list.  Its groups are non-empty, no
  id occurs twice in them and the ids are those of the input; for an input whose ids are
  distinct (the store's primary key) the groups partition the input: every input memory
  lies in exactly one group, once.  The overlap is 0 as soon as one of the two word sets
  is empty, and a memory with an empty word set is alone in its group.
\<close>

theorem groupByOverlap_partition:
  "(distinct (map id_of ms) \<longrightarrow>
      set (concat (groupByOverlap ms)) = set ms \<and>
      distinct (concat (groupByOverlap ms)) \<and>
      (\<forall>m \<in> set ms. \<exists>!i. i < length (groupByOverlap ms) \<and> m \<in> set (groupByOverlap ms ! i))) \<and>
   distinct (map id_of (concat (groupByOverlap ms))) \<and>
   id_of ` set (concat (groupByOverlap ms)) = id_of ` set ms \<and>
   (\<forall>g \<in> set (groupByOverlap ms). g \<noteq> []) \<and>
   (\<forall>m n. extractWords m = {} \<or> extractWords n = {} \<longrightarrow>
      computeOverlap (extractWords m) (extractWords n) = 0) \<and>
   (\<forall>g \<in> set (groupByOverlap ms). \<forall>m \<in> set g. extractWords m = {} \<longrightarrow> g = [m]) \<and>
   (\<forall>ms'. ms' = ms \<longrightarrow> groupByOverlap ms' = groupByOverlap ms)"
proof -
  let ?gs = "groupByOverlap ms"
  note inv = groupByOverlap_inv [of ms]
  have part: "set (concat ?gs) = set ms \<and> distinct (concat ?gs) \<and>
      (\<forall>m \<in> set ms. \<exists>!i. i < length ?gs \<and> m \<in> set (?gs ! i))"
    if d: "distinct (map id_of ms)"
  proof -
    have inj: "inj_on id_of (set ms)" using d by (simp add: distinct_map)
    have "set ms \<subseteq> set (concat ?gs)"
    proof
      fix m assume m: "m \<in> set ms"
      then have "id_of m \<in> id_of ` set (concat ?gs)" using inv by blast
      then obtain m' where m': "m' \<in> set (concat ?gs)" "id_of m' = id_of m" by force
      then have "m' \<in> set ms" using inv by blast
      with inj m m'(2) have "m' = m" by (auto dest: inj_onD)
      with m'(1) show "m \<in> set (concat ?gs)" by simp
    qed
    with inv have eq: "set (concat ?gs) = set ms" by blast
    have dc: "distinct (concat ?gs)" using inv by (simp add: distinct_map)
    have "\<forall>m \<in> set ms. \<exists>!i. i < length ?gs \<and> m \<in> set (?gs ! i)"
      using exactly_one_group [OF dc] eq by blast
    with eq dc show ?thesis by blast
  qed
  have ne: "\<forall>g \<in> set ?gs. g \<noteq> []" using inv by (auto simp: well_seeded_def)
  have lone: "\<forall>g \<in> set ?gs. \<forall>m \<in> set g. extractWords m = {} \<longrightarrow> g = [m]"
    using inv lone_group by blast
  have zero: "\<forall>m n. extractWords m = {} \<or> extractWords n = {} \<longrightarrow>
      computeOverlap (extractWords m) (extractWords n) = 0"
    using computeOverlap_empty by blast
  show ?thesis using part inv ne lone zero by blast
qed

lemmas word_eval = words_of_def toLowerCase_def toLowerCase_char_def split_nonword_def is_word_char_def

lemma words_of_samples:
  "words_of mem_d1 = [''deployment'', ''pipeline'', ''deployment'', ''failed'', ''twice'', ''deployment'']"
  "words_of mem_blank = []"
  "words_of mem_d3 = [''deployment'', ''rollback'']"
  by (simp_all add: word_eval mem_d1_def mem_blank_def mem_d3_def)

lemma sample_ids: "id_of mem_d1 = ''d1''" "id_of mem_blank = ''d2''" "id_of mem_d3 = ''d3''"
  by (simp_all add: mem_d1_def mem_blank_def mem_d3_def)

lemma extractWords_samples:
  "extractWords mem_d1 = {''deployment'', ''pipeline'', ''failed'', ''twice''}"
  "extractWords mem_blank = {}"
  "extractWords mem_d3 = {''deployment'', ''rollback''}"
  by (auto simp: extractWords_def words_of_samples)

lemma computeOverlap_samples:
  "computeOverlap (extractWords mem_d1) (extractWords mem_d3) = 1 / 2"
  "computeOverlap (extractWords mem_d1) (extractWords mem_blank) = 0"
  "computeOverlap (extractWords mem_blank) (extractWords mem_d3) = 0"
  by (simp_all add: computeOverlap_def extractWords_samples)

lemma groupByOverlap_sample:
  "groupByOverlap [mem_d1, mem_blank, mem_d3] = [[mem_d1, mem_d3], [mem_blank]]"
  by (simp add: groupByOverlap_def computeOverlap_samples Let_def sample_ids)

theorem groupByOverlap_partition_witness:
  "distinct (map id_of [mem_d1, mem_blank, mem_d3]) \<and>
   groupByOverlap [mem_d1, mem_blank, mem_d3] = [[mem_d1, mem_d3], [mem_blank]] \<and>
   set (concat (groupByOverlap [mem_d1, mem_blank, mem_d3])) = set [mem_d1, mem_blank, mem_d3] \<and>
   distinct (concat (groupByOverlap [mem_d1, mem_blank, mem_d3])) \<and>
   extractWords mem_blank = {} \<and>
   computeOverlap (extractWords mem_d1) (extractWords mem_blank) = 0"
proof -
  let ?L = "[mem_d1, mem_blank, mem_d3]"
  have d: "distinct (map id_of ?L)" by (simp add: sample_ids)
  have e: "extractWords mem_blank = {}" by (rule extractWords_samples)
  note t = groupByOverlap_partition [of ?L]
  from conjunct1 [OF t] d
  have q: "set (concat (groupByOverlap ?L)) = set ?L \<and> distinct (concat (groupByOverlap ?L)) \<and>
      (\<forall>m \<in> set ?L. \<exists>!i. i < length (groupByOverlap ?L) \<and> m \<in> set (groupByOverlap ?L ! i))"
    by (rule mp)
  have z: "computeOverlap (extractWords mem_d1) (extractWords mem_blank) = 0"
    using t e by blast
  show ?thesis
    using d groupByOverlap_sample conjunct1 [OF q] conjunct1 [OF conjunct2 [OF q]] e z
    by (intro conjI)
qed

section \<open>Lifecycle: theorems\<close>

lemma expire_one_fields:
  "memories (ls_db (expire_one clock writable config mem st)) =
     filter (\<lambda>m. id_of m \<noteq> id_of mem) (memories (ls_db st))"
  "expired (ls_result (expire_one clock writable config mem st)) = expired (ls_result st) + 1"
  "archived (ls_result (expire_one clock writable config mem st)) =
     archived (ls_result st) + (if writable (archive_path config mem) then 1 else 0)"
  "ls_files (expire_one clock writable config mem st) =
     (if writable (archive_path config mem)
      then (ls_files st)(archive_path config mem \<mapsto> archive_content (clock (ls_tick st)) mem)
      else ls_files st)"
  by (simp_all add: expire_one_def archiveMemory_def delete_row_def recordMetric_def Let_def)

lemma fold_expire:
  "memories (ls_db (fold (expire_one clock writable config) ms st)) =
     filter (\<lambda>m. id_of m \<notin> id_of ` set ms) (memories (ls_db st)) \<and>
   expired (ls_result (fold (expire_one clock writable config) ms st)) =
     expired (ls_result st) + length ms \<and>
   archived (ls_result (fold (expire_one clock writable config) ms st)) =
     archived (ls_result st) + length (filter (\<lambda>m. writable (archive_path config m)) ms)"
proof (induction ms arbitrary: st)
  case Nil
  then show ?case by simp
next
  case (Cons m ms)
  show ?case
    by (auto simp add: Cons.IH expire_one_fields intro: filter_cong)
qed

lemma fold_expire_files:
  "(\<forall>m \<in> set ms. \<not> writable (archive_path config m)) \<Longrightarrow>
   ls_files (fold (expire_one clock writable config) ms st) = ls_files st"
  by (induction ms arbitrary: st) (auto simp add: expire_one_fields)

text \<open>
  C5.  With \<open>now\<close> the clock reading \<open>getExpired\<close> takes at the start of the run: after
  \<open>runLifecycle\<close> no row with \<open>expires_at < now\<close> is left, \<open>expired\<close> counts the rows that
  were expired, \<open>archived\<close> counts those among them whose archive file could be written,
  so \<open>archived \<le> expired\<close>.  The rows are deleted whatever the file system does: when
  every write fails the same rows are gone, no file is written and \<open>archived\<close> is 0.
\<close>

theorem runLifecycle_drains:
  "getExpired (clock 0) (ls_db (runLifecycle clock writable config db files)) = [] \<and>
   archived (ls_result (runLifecycle clock writable config db files))
     \<le> expired (ls_result (runLifecycle clock writable config db files)) \<and>
   expired (ls_result (runLifecycle clock writable config db files))
     = length (getExpired (clock 0) db) \<and>
   archived (ls_result (runLifecycle clock writable config db files))
     = length (filter (\<lambda>m. writable (archive_path config m)) (getExpired (clock 0) db)) \<and>
   memories (ls_db (runLifecycle clock writable config db files))
     = filter (\<lambda>m. id_of m \<notin> id_of ` set (getExpired (clock 0) db)) (memories db) \<and>
   (distinct (map id_of (memories db)) \<longrightarrow>
      memories (ls_db (runLifecycle clock writable config db files))
        = filter (\<lambda>m. \<not> is_expired (clock 0) m) (memories db)) \<and>
   ((\<forall>m \<in> set (getExpired (clock 0) db). \<not> writable (archive_path config m)) \<longrightarrow>
      archived (ls_result (runLifecycle clock writable config db files)) = 0 \<and>
      ls_files (runLifecycle clock writable config db files) = files)"
proof -
  let ?ex = "getExpired (clock 0) db"
  let ?st0 = "\<lparr> ls_db = db, ls_files = files, ls_result = \<lparr> expired = 0, archived = 0 \<rparr>, ls_tick = 1 \<rparr>"
  have run: "runLifecycle clock writable config db files = fold (expire_one clock writable config) ?ex ?st0"
    by (simp add: runLifecycle_def Let_def)
  note f = fold_expire [of clock writable config ?ex ?st0]
  have rows: "memories (ls_db (runLifecycle clock writable config db files))
     = filter (\<lambda>m. id_of m \<notin> id_of ` set ?ex) (memories db)"
    using f by (simp add: run)
  have ex: "expired (ls_result (runLifecycle clock writable config db files)) = length ?ex"
    using f by (simp add: run)
  have ar: "archived (ls_result (runLifecycle clock writable config db files))
     = length (filter (\<lambda>m. writable (archive_path config m)) ?ex)"
    using f by (simp add: run)
  have le: "archived (ls_result (runLifecycle clock writable config db files))
     \<le> expired (ls_result (runLifecycle clock writable config db files))"
    unfolding ex ar by (rule length_filter_le)
  have ids: "id_of ` set ?ex = id_of ` {m \<in> set (memories db). is_expired (clock 0) m}"
    by (simp add: getExpired_def image_image rowToMemory_fields)
  have "filter (is_expired (clock 0))
          (memories (ls_db (runLifecycle clock writable config db files))) = []"
    unfolding rows ids by (auto simp: filter_empty_conv)
  then have gone: "getExpired (clock 0) (ls_db (runLifecycle clock writable config db files)) = []"
    by (simp add: getExpired_def)
  have keep: "memories (ls_db (runLifecycle clock writable config db files))
        = filter (\<lambda>m. \<not> is_expired (clock 0) m) (memories db)"
    if d: "distinct (map id_of (memories db))"
  proof -
    have inj: "inj_on id_of (set (memories db))" using d by (simp add: distinct_map)
    have "\<And>m. m \<in> set (memories db) \<Longrightarrow>
        (id_of m \<notin> id_of ` set ?ex) = (\<not> is_expired (clock 0) m)"
      unfolding ids using inj by (auto dest: inj_onD)
    then show ?thesis unfolding rows by (intro filter_cong) auto
  qed
  have fail: "archived (ls_result (runLifecycle clock writable config db files)) = 0 \<and>
      ls_files (runLifecycle clock writable config db files) = files"
    if w: "\<forall>m \<in> set ?ex. \<not> writable (archive_path config m)"
  proof -
    have "filter (\<lambda>m. writable (archive_path config m)) ?ex = []"
      using w by (simp add: filter_empty_conv)
    then have "archived (ls_result (runLifecycle clock writable config db files)) = 0"
      by (simp add: ar)
    moreover have "ls_files (runLifecycle clock writable config db files) = files"
      using fold_expire_files [OF w, of clock ?st0] by (simp add: run)
    ultimately show ?thesis by simp
  qed
  show ?thesis using gone le ex ar rows keep fail by blast
qed

lemma sample_expired:
  "getExpired (sample_clock 0) sample_db = [mem_old]"
  by (simp add: getExpired_def is_expired_def sample_db_def sample_clock_def mem_tabs_def mem_auth_def mem_old_def
        rowToMemory_def)

theorem runLifecycle_drains_witness:
  "getExpired (sample_clock 0) sample_db = [mem_old] \<and>
   distinct (map id_of (memories sample_db)) \<and>
   getExpired (sample_clock 0) (ls_db (runLifecycle sample_clock (\<lambda>p. False) sample_config sample_db Map.empty)) = [] \<and>
   memories (ls_db (runLifecycle sample_clock (\<lambda>p. False) sample_config sample_db Map.empty)) = [mem_tabs, mem_auth] \<and>
   expired (ls_result (runLifecycle sample_clock (\<lambda>p. False) sample_config sample_db Map.empty)) = 1 \<and>
   archived (ls_result (runLifecycle sample_clock (\<lambda>p. False) sample_config sample_db Map.empty)) = 0 \<and>
   ls_files (runLifecycle sample_clock (\<lambda>p. False) sample_config sample_db Map.empty) = Map.empty"
proof -
  note t = runLifecycle_drains [of sample_clock "\<lambda>p. False" sample_config sample_db Map.empty]
  have d: "distinct (map id_of (memories sample_db))"
    by (simp add: sample_db_def mem_tabs_def mem_auth_def mem_old_def)
  have w: "\<forall>m \<in> set (getExpired (sample_clock 0) sample_db). \<not> False" by simp
  have k: "filter (\<lambda>m. \<not> is_expired (sample_clock 0) m) (memories sample_db) = [mem_tabs, mem_auth]"
    by (simp add: is_expired_def sample_db_def sample_clock_def mem_tabs_def mem_auth_def mem_old_def)
  note c2 = conjunct2 [OF t]
  note c3 = conjunct2 [OF c2]
  note c4 = conjunct2 [OF c3]
  note c5 = conjunct2 [OF c4]
  note c6 = conjunct2 [OF c5]
  from t have "getExpired (sample_clock 0) (ls_db (runLifecycle sample_clock (\<lambda>p. False) sample_config sample_db Map.empty)) = []"
    by (rule conjunct1)
  moreover from conjunct1 [OF c6] d
  have "memories (ls_db (runLifecycle sample_clock (\<lambda>p. False) sample_config sample_db Map.empty))
        = filter (\<lambda>m. \<not> is_expired (sample_clock 0) m) (memories sample_db)"
    by (rule mp)
  then have "memories (ls_db (runLifecycle sample_clock (\<lambda>p. False) sample_config sample_db Map.empty)) = [mem_tabs, mem_auth]"
    by (simp only: k)
  moreover from conjunct1 [OF c3] have "expired (ls_result (runLifecycle sample_clock (\<lambda>p. False) sample_config sample_db Map.empty)) = 1"
    by (simp add: sample_expired)
  moreover from conjunct2 [OF c6] w have "archived (ls_result (runLifecycle sample_clock (\<lambda>p. False) sample_config sample_db Map.empty)) = 0 \<and>
      ls_files (runLifecycle sample_clock (\<lambda>p. False) sample_config sample_db Map.empty) = Map.empty"
    by (rule mp)
  ultimately show ?thesis using sample_expired d by (intro conjI) simp_all
qed

section \<open>Checkpoints: theorems\<close>








section \<open>Extractor: theorems\<close>

lemma buildDiary_shape:
  assumes "\<bar>clock 1 + diary_days config * 86400000\<bar> \<le> 8640000000000000"
  shows "\<exists>d. buildDiary rx fmt clock messages config = Inr d \<and>
             in_type d = Diary \<and> in_priority d = P2 \<and>
             in_expires_at d = Some (fmt (clock 1 + diary_days config * 86400000))"
  using assms by (simp add: buildDiary_def toISOString_def Let_def)

lemma those_None_iff: "those xs = None \<longleftrightarrow> None \<in> set xs"
  by (induction xs) (auto split: option.splits)

lemma buildDiary_raises:
  assumes "\<not> \<bar>clock 1 + diary_days config * 86400000\<bar> \<le> 8640000000000000"
  shows "buildDiary rx fmt clock messages config = Inl RangeError"
  using assms by (simp add: buildDiary_def toISOString_def Let_def)

lemma role_reads_messages:
  "Null \<notin> set vs \<Longrightarrow> \<exists>ms. role_reads vs = Inr ms \<and> map Message ms = vs"
  by (induction vs rule: role_reads.induct) auto

lemma role_reads_Message [simp]: "role_reads (map Message ms) = Inr ms"
  by (induction ms) auto

lemma role_reads_Null: "Null \<in> set vs \<Longrightarrow> role_reads vs = Inl TypeError"
  by (induction vs rule: role_reads.induct) auto

text \<open>
  C7, as amended.  When the file cannot be read or some line does not parse, the call
  returns the empty output, not an error.  When the transcript parses to fewer than 4
  values, the output is empty.  When it parses to at least 4 messages (no line is the
  JSON value \<open>null\<close>) and the expiry date, now plus \<open>diary_days\<close> days, is one that \<open>Date\<close>
  represents, the output has a diary, of type diary and priority 2.  An output that is
  returned has a diary exactly when the transcript parsed to at least 4 values.
\<close>

theorem extractFromTranscript_diary:
  "((readFile path = None \<or>
     (\<exists>raw. readFile path = Some raw \<and>
        (\<exists>l \<in> set (split_lines [] raw). l \<noteq> [] \<and> parse_line l = None))) \<longrightarrow>
      extractFromTranscript readFile parse_line rx fmt clock path config = Inr no_memories) \<and>
   (\<forall>vs. read_messages readFile parse_line path = Some vs \<and> length vs < 4 \<longrightarrow>
      extractFromTranscript readFile parse_line rx fmt clock path config = Inr no_memories) \<and>
   (\<forall>vs. read_messages readFile parse_line path = Some vs \<and> 4 \<le> length vs \<and>
        Null \<notin> set vs \<and> \<bar>clock 1 + diary_days config * 86400000\<bar> \<le> 8640000000000000 \<longrightarrow>
      (\<exists>e d. extractFromTranscript readFile parse_line rx fmt clock path config = Inr e \<and>
         ex_diary e = Some d \<and> in_type d = Diary \<and> in_priority d = P2)) \<and>
   (\<forall>e. extractFromTranscript readFile parse_line rx fmt clock path config = Inr e \<longrightarrow>
      (ex_diary e \<noteq> None) =
      (\<exists>vs. read_messages readFile parse_line path = Some vs \<and> 4 \<le> length vs))"
proof (intro conjI allI impI)
  assume a: "readFile path = None \<or>
     (\<exists>raw. readFile path = Some raw \<and>
        (\<exists>l \<in> set (split_lines [] raw). l \<noteq> [] \<and> parse_line l = None))"
  have "read_messages readFile parse_line path = None"
  proof (cases "readFile path")
    case None
    then show ?thesis by (simp add: read_messages_def)
  next
    case (Some raw)
    with a obtain l where "l \<in> set (split_lines [] raw)" "l \<noteq> []" "parse_line l = None" by auto
    then have "None \<in> set (map parse_line (filter (\<lambda>l. l \<noteq> []) (split_lines [] raw)))"
      by force
    with Some show ?thesis by (simp add: read_messages_def those_None_iff)
  qed
  then show "extractFromTranscript readFile parse_line rx fmt clock path config = Inr no_memories"
    by (simp add: extractFromTranscript_def)
next
  fix vs
  assume "read_messages readFile parse_line path = Some vs \<and> length vs < 4"
  then show "extractFromTranscript readFile parse_line rx fmt clock path config = Inr no_memories"
    by (simp add: extractFromTranscript_def)
next
  fix vs
  assume a: "read_messages readFile parse_line path = Some vs \<and> 4 \<le> length vs \<and>
        Null \<notin> set vs \<and> \<bar>clock 1 + diary_days config * 86400000\<bar> \<le> 8640000000000000"
  then obtain ms where ms: "role_reads vs = Inr ms"
    using role_reads_messages [of vs] by blast
  from a obtain d where d: "buildDiary rx fmt clock ms config = Inr d"
    "in_type d = Diary" "in_priority d = P2"
    using buildDiary_shape [of clock config rx fmt ms] by blast
  with a ms show "\<exists>e d. extractFromTranscript readFile parse_line rx fmt clock path config = Inr e \<and>
         ex_diary e = Some d \<and> in_type d = Diary \<and> in_priority d = P2"
    by (simp add: extractFromTranscript_def)
next
  fix e
  assume a: "extractFromTranscript readFile parse_line rx fmt clock path config = Inr e"
  show "(ex_diary e \<noteq> None) =
      (\<exists>vs. read_messages readFile parse_line path = Some vs \<and> 4 \<le> length vs)"
    using a
    by (auto simp: extractFromTranscript_def no_memories_def split: option.splits if_splits sum.splits)
qed

text \<open>
  C9.  With fewer than 4 messages the early return gives the empty output: no diary, and
  no corrections or preferences either, whatever the patterns would match in the messages.
\<close>

theorem extractFromTranscript_short:
  "read_messages readFile parse_line path = Some messages \<Longrightarrow> length messages < 4 \<Longrightarrow>
   extractFromTranscript readFile parse_line rx fmt clock path config
     = Inr \<lparr> ex_diary = None, ex_corrections = [], ex_preferences = [] \<rparr>"
  by (simp add: extractFromTranscript_def no_memories_def)

lemma split_lines_line:
  "CHR 0x0A \<notin> set l \<Longrightarrow> split_lines cur (l @ CHR 0x0A # rest) = (cur @ l) # split_lines [] rest"
  by (induction l arbitrary: cur) auto

lemma split_lines_last:
  "CHR 0x0A \<notin> set l \<Longrightarrow> split_lines cur l = [cur @ l]"
  by (induction l arbitrary: cur) auto

lemma sample_lines_plain:
  "CHR 0x0A \<notin> set line_u1" "CHR 0x0A \<notin> set line_a1" "CHR 0x0A \<notin> set line_u2" "CHR 0x0A \<notin> set line_a2"
  "line_u1 \<noteq> []" "line_a1 \<noteq> []" "line_u2 \<noteq> []" "line_a2 \<noteq> []"
  "CHR 0x0A \<notin> set ''null''"
  by (simp_all add: line_u1_def line_a1_def line_u2_def line_a2_def)

lemma sample_lines_parse:
  "parse_sample_line line_u1 = Some (Message msg_u1)" "parse_sample_line line_a1 = Some (Message msg_a1)"
  "parse_sample_line line_u2 = Some (Message msg_u2)" "parse_sample_line line_a2 = Some (Message msg_a2)"
  "parse_sample_line ''{\"role\":'' = None" "parse_sample_line ''null'' = Some Null"
  by (simp_all add: parse_sample_line_def line_u1_def line_a1_def line_u2_def line_a2_def)

lemma read_four:
  "read_messages sample_fs parse_sample_line ''/t/four.jsonl'' = Some (map Message [msg_u1, msg_a1, msg_u2, msg_a2])"
  by (simp add: read_messages_def sample_fs_def split_lines_line sample_lines_plain sample_lines_parse)

lemma read_three:
  "read_messages sample_fs parse_sample_line ''/t/three.jsonl'' = Some (map Message [msg_u1, msg_a1, msg_u2])"
  by (simp add: read_messages_def sample_fs_def split_lines_line sample_lines_plain sample_lines_parse)

lemma read_null:
  "read_messages sample_fs parse_sample_line ''/t/null.jsonl'' = Some [Message msg_u1, Message msg_a1, Message msg_u2, Null]"
  using split_lines_line [of "''null''" "[]" "[]"]
  by (simp add: read_messages_def sample_fs_def split_lines_line sample_lines_plain sample_lines_parse)

lemma read_broken:
  "sample_fs ''/t/broken.jsonl'' = Some (line_u1 @ [CHR 0x0A] @ line_a1 @ [CHR 0x0A] @ line_u2 @ [CHR 0x0A] @ line_a2 @ [CHR 0x0A] @ ''{\"role\":'')"
  "''{\"role\":'' \<in> set (split_lines [] (line_u1 @ [CHR 0x0A] @ line_a1 @ [CHR 0x0A] @ line_u2 @ [CHR 0x0A] @ line_a2 @ [CHR 0x0A] @ ''{\"role\":''))"
  by (simp_all add: sample_fs_def split_lines_line sample_lines_plain)

lemma sample_corrections:
  "extractCorrections rx_sample [msg_u1, msg_a1, msg_u2] =
     [\<lparr> in_type = Knowledge, in_priority = P0,
        in_title = ''Correction: always use tabs instead of spaces'',
        in_summary = ''always use tabs instead of spaces'',
        in_content = ''Source: user correction (correction)'' @ [CHR 0x0A] @
                     ''Context: actually, always use tabs instead of spaces'',
        in_tags = Some [''correction'', ''correction''],
        in_agent_id = None, in_source_ids = None, in_expires_at = None \<rparr>]"
  by (simp add: extractCorrections_def msg_u1_def msg_a1_def msg_u2_def rx_sample_def text_u1_def
        correction_of_def trim_def is_space_def slice_def context_window_def dedup_def Let_def)

theorem extractFromTranscript_diary_witness:
  "(\<exists>e d. extractFromTranscript sample_fs parse_sample_line rx_sample sample_fmt sample_clock_ms
            ''/t/four.jsonl'' sample_config = Inr e \<and>
          ex_diary e = Some d \<and> in_type d = Diary \<and> in_priority d = P2) \<and>
   extractFromTranscript sample_fs parse_sample_line rx_sample sample_fmt sample_clock_ms
     ''/t/three.jsonl'' sample_config = Inr no_memories \<and>
   extractFromTranscript sample_fs parse_sample_line rx_sample sample_fmt sample_clock_ms
     ''/t/broken.jsonl'' sample_config = Inr no_memories \<and>
   extractFromTranscript sample_fs parse_sample_line rx_sample sample_fmt sample_clock_ms
     ''/t/missing.jsonl'' sample_config = Inr no_memories"
proof -
  have range: "\<bar>sample_clock_ms 1 + diary_days sample_config * 86400000\<bar> \<le> 8640000000000000"
    by (simp add: sample_clock_ms_def sample_config_def)
  have four: "read_messages sample_fs parse_sample_line ''/t/four.jsonl'' = Some (map Message [msg_u1, msg_a1, msg_u2, msg_a2]) \<and>
      4 \<le> length (map Message [msg_u1, msg_a1, msg_u2, msg_a2]) \<and>
      Null \<notin> set (map Message [msg_u1, msg_a1, msg_u2, msg_a2]) \<and>
      \<bar>sample_clock_ms 1 + diary_days sample_config * 86400000\<bar> \<le> 8640000000000000"
    using range by (simp add: read_four)
  have three: "read_messages sample_fs parse_sample_line ''/t/three.jsonl'' = Some (map Message [msg_u1, msg_a1, msg_u2]) \<and>
      length (map Message [msg_u1, msg_a1, msg_u2]) < 4"
    by (simp add: read_three)
  have broken: "sample_fs ''/t/broken.jsonl'' = None \<or>
     (\<exists>raw. sample_fs ''/t/broken.jsonl'' = Some raw \<and>
        (\<exists>l \<in> set (split_lines [] raw). l \<noteq> [] \<and> parse_sample_line l = None))"
    using read_broken sample_lines_parse(5) by fastforce
  have missing: "sample_fs ''/t/missing.jsonl'' = None \<or>
     (\<exists>raw. sample_fs ''/t/missing.jsonl'' = Some raw \<and>
        (\<exists>l \<in> set (split_lines [] raw). l \<noteq> [] \<and> parse_sample_line l = None))"
    by (simp add: sample_fs_def)
  note t4 = extractFromTranscript_diary [of sample_fs "''/t/four.jsonl''" parse_sample_line rx_sample sample_fmt sample_clock_ms sample_config]
  note t3 = extractFromTranscript_diary [of sample_fs "''/t/three.jsonl''" parse_sample_line rx_sample sample_fmt sample_clock_ms sample_config]
  note tb = extractFromTranscript_diary [of sample_fs "''/t/broken.jsonl''" parse_sample_line rx_sample sample_fmt sample_clock_ms sample_config]
  note tm = extractFromTranscript_diary [of sample_fs "''/t/missing.jsonl''" parse_sample_line rx_sample sample_fmt sample_clock_ms sample_config]
  from t4 four have "\<exists>e d. extractFromTranscript sample_fs parse_sample_line rx_sample sample_fmt sample_clock_ms
            ''/t/four.jsonl'' sample_config = Inr e \<and>
          ex_diary e = Some d \<and> in_type d = Diary \<and> in_priority d = P2"
    by blast
  moreover from t3 three have "extractFromTranscript sample_fs parse_sample_line rx_sample sample_fmt sample_clock_ms
     ''/t/three.jsonl'' sample_config = Inr no_memories"
    by blast
  moreover from conjunct1 [OF tb] broken have "extractFromTranscript sample_fs parse_sample_line rx_sample sample_fmt sample_clock_ms
     ''/t/broken.jsonl'' sample_config = Inr no_memories"
    by (rule mp)
  moreover from conjunct1 [OF tm] missing have "extractFromTranscript sample_fs parse_sample_line rx_sample sample_fmt sample_clock_ms
     ''/t/missing.jsonl'' sample_config = Inr no_memories"
    by (rule mp)
  ultimately show ?thesis by (intro conjI)
qed

text \<open>
  The claim as the spec words it fails: the sample transcript parses to four messages, and
  with \<open>diary_days\<close> = 100000000 the expiry date is past the last one \<open>Date\<close> represents,
  \<open>toISOString\<close> raises a \<open>RangeError\<close>, and the call returns no output at all, so no diary.
\<close>

theorem extractFromTranscript_raises:
  "read_messages sample_fs parse_sample_line ''/t/four.jsonl''
     = Some [Message msg_u1, Message msg_a1, Message msg_u2, Message msg_a2] \<and>
   extractFromTranscript sample_fs parse_sample_line rx_sample sample_fmt sample_clock_ms
     ''/t/four.jsonl'' (sample_config\<lparr>diary_days := 100000000\<rparr>) = Inl RangeError"
proof -
  have "\<not> \<bar>sample_clock_ms 1 + diary_days (sample_config\<lparr>diary_days := 100000000\<rparr>) * 86400000\<bar>
          \<le> 8640000000000000"
    by (simp add: sample_clock_ms_def)
  then have "buildDiary rx_sample sample_fmt sample_clock_ms [msg_u1, msg_a1, msg_u2, msg_a2]
               (sample_config\<lparr>diary_days := 100000000\<rparr>) = Inl RangeError"
    by (rule buildDiary_raises)
  then show ?thesis
    using read_four by (simp add: extractFromTranscript_def)
qed

text \<open>A line that is the JSON value \<open>null\<close> parses, and from 4 lines on the call raises a
  \<open>TypeError\<close> at it.\<close>

lemma extractFromTranscript_null_line:
  "extractFromTranscript sample_fs parse_sample_line rx_sample sample_fmt sample_clock_ms
     ''/t/null.jsonl'' sample_config = Inl TypeError"
  using read_null by (simp add: extractFromTranscript_def)

theorem extractFromTranscript_short_witness:
  "read_messages sample_fs parse_sample_line ''/t/three.jsonl'' = Some (map Message [msg_u1, msg_a1, msg_u2]) \<and>
   length (map Message [msg_u1, msg_a1, msg_u2]) < 4 \<and>
   extractCorrections rx_sample [msg_u1, msg_a1, msg_u2] \<noteq> [] \<and>
   extractFromTranscript sample_fs parse_sample_line rx_sample sample_fmt sample_clock_ms
     ''/t/three.jsonl'' sample_config
     = Inr \<lparr> ex_diary = None, ex_corrections = [], ex_preferences = [] \<rparr>"
proof -
  have l: "length (map Message [msg_u1, msg_a1, msg_u2]) < 4" by simp
  from extractFromTranscript_short [OF read_three l]
  show ?thesis using read_three l by (simp add: sample_corrections)
qed

section \<open>Stop hook: theorems\<close>

lemma lex_Correction:
  "fts5_lex Idle (''Correction: '' @ x) =
     emit_token (FTS_STRING ''Correction'') (emit_token (FTS_PUNCT (CHR '':'')) (fts5_lex Idle x))"
  by (simp add: is_bareword_char_def is_alnum_def is_fts_space_def is_fts_punct_def word_token_def)

lemma lex_Preference:
  "fts5_lex Idle (''Preference: '' @ x) =
     emit_token (FTS_STRING ''Preference'') (emit_token (FTS_PUNCT (CHR '':'')) (fts5_lex Idle x))"
  by (simp add: is_bareword_char_def is_alnum_def is_fts_space_def is_fts_punct_def word_token_def)

lemma parse_Correction: "fts5_parse (''Correction: '' @ x) = SyntaxError"
  by (cases "fts5_lex Idle x")
     (simp_all add: fts5_parse_def lex_Correction emit_token_def fts_columns_def
        toLowerCase_def toLowerCase_char_def del: append.simps)

lemma parse_Preference: "fts5_parse (''Preference: '' @ x) = SyntaxError"
  by (cases "fts5_lex Idle x")
     (simp_all add: fts5_parse_def lex_Preference emit_token_def fts_columns_def
        toLowerCase_def toLowerCase_char_def del: append.simps)

lemma search_unsearchable: "unsearchable c \<Longrightarrow> search db (in_title c) n = Inl SqliteError"
  by (simp add: search_def unsearchable_def)

lemma set_dedup_from: "set (dedup_from seen ms) \<subseteq> set ms"
  by (induction ms arbitrary: seen) (auto simp: Let_def)

lemma corrections_unsearchable:
  "c \<in> set (extractCorrections rx msgs) \<Longrightarrow> unsearchable c"
proof -
  assume "c \<in> set (extractCorrections rx msgs)"
  then have "c \<in> set (concat (map (\<lambda>msg.
       let t = extractText (msg_content msg) in
       concat (map (correction_of ''correction'' t) (rx CorrectionPattern t)) @
       concat (map (correction_of ''negative_preference'' t) (rx NegativePattern t)))
       (filter (\<lambda>m. role m = ''user'') msgs)))"
    using set_dedup_from unfolding extractCorrections_def dedup_def by blast
  then obtain k t m where "c \<in> set (correction_of k t m)"
    by (auto simp: Let_def)
  then have "\<exists>x. in_title c = ''Correction: '' @ x"
    by (auto simp: correction_of_def Let_def split: if_splits)
  then show ?thesis using parse_Correction by (auto simp: unsearchable_def)
qed

lemma preferences_unsearchable:
  "c \<in> set (extractPreferences rx msgs) \<Longrightarrow> unsearchable c"
proof -
  assume "c \<in> set (extractPreferences rx msgs)"
  then have "c \<in> set (concat (map (\<lambda>msg.
       let t = extractText (msg_content msg) in
       concat (map (preference_of t) (rx PreferencePattern1 t)) @
       concat (map (preference_of t) (rx PreferencePattern2 t)))
       (filter (\<lambda>m. role m = ''user'') msgs)))"
    using set_dedup_from unfolding extractPreferences_def dedup_def by blast
  then obtain t m where "c \<in> set (preference_of t m)"
    by (auto simp: Let_def)
  then have "\<exists>x. in_title c = ''Preference: '' @ x"
    by (auto simp: preference_of_def Let_def split: if_splits)
  then show ?thesis using parse_Preference by (auto simp: unsearchable_def)
qed

lemma insert_unless_found_raises:
  "cs \<noteq> [] \<Longrightarrow> unsearchable (hd cs) \<Longrightarrow> insert_unless_found e cs s = (Some SqliteError, s)"
  by (cases cs) (simp_all add: search_unsearchable)

lemma buildDiary_type: "buildDiary rx fmt clock msgs config = Inr d \<Longrightarrow> in_type d = Diary"
  unfolding buildDiary_def Let_def
  by (cases "toISOString fmt (clock 1 + diary_days config * 86400000)") auto

lemma extract_streams:
  assumes "extractFromTranscript rf pl rx fmt clock path config = Inr ex"
    and "ex_corrections ex \<noteq> [] \<or> ex_preferences ex \<noteq> []"
  shows "\<exists>msgs d. ex = \<lparr> ex_diary = Some d, ex_corrections = extractCorrections rx msgs,
                          ex_preferences = extractPreferences rx msgs \<rparr> \<and>
                  in_type d = Diary"
proof (cases "read_messages rf pl path")
  case None
  with assms show ?thesis by (simp add: extractFromTranscript_def no_memories_def) auto
next
  case (Some vs)
  show ?thesis
  proof (cases "length vs < 4")
    case True
    with Some assms show ?thesis by (simp add: extractFromTranscript_def no_memories_def) auto
  next
    case False
    show ?thesis
    proof (cases "role_reads vs")
      case (Inl err)
      with Some False assms(1) show ?thesis by (simp add: extractFromTranscript_def)
    next
      case msgs: (Inr msgs)
      show ?thesis
      proof (cases "buildDiary rx fmt clock msgs config")
        case (Inl err)
        with Some False msgs assms(1) show ?thesis by (simp add: extractFromTranscript_def)
      next
        case (Inr d)
        with Some False msgs assms(1)
        have "ex = \<lparr> ex_diary = Some d, ex_corrections = extractCorrections rx msgs,
                          ex_preferences = extractPreferences rx msgs \<rparr>"
          by (simp add: extractFromTranscript_def)
        with buildDiary_type [OF Inr] show ?thesis by blast
      qed
    qed
  qed
qed

lemma db_insert_row:
  "db_insert e input s = Inr (m, s') \<Longrightarrow>
     memories (s_db s') = memories (s_db s) @ [m] \<and> title m = in_title input \<and> type_of m = in_type input"
  by (auto simp: db_insert_def insert_row_def toMemory_def Let_def split: if_splits sum.splits)

lemma db_insert_fails: "db_insert e input s = Inl err \<Longrightarrow> err = SqliteError"
  by (auto simp: db_insert_def insert_row_def Let_def split: if_splits sum.splits)


text \<open>
  C1.  The titles of the extracted candidates start with \<open>Correction:\<close> or \<open>Preference:\<close>,
  which FTS5 reads as a filter on a column that does not exist.  So as soon as the
  Extractor yields a candidate, the search for the first one raises, the handler ends
  with an uncaught error, and no candidate is inserted, whether or not a record with
  its title exists: the rows are those from before and at most the diary.
\<close>

theorem handleStop_candidates_raise:
  assumes "\<not> stop_hook_active input"
    and "extractFromTranscript (env_readFile e) (env_parse_line e) (env_rx e) (env_fmt e)
           (env_clock e) (transcript_path input) config = Inr ex"
    and "ex_corrections ex \<noteq> [] \<or> ex_preferences ex \<noteq> []"
  shows "fst (handleStop e input config db) = Uncaught SqliteError \<and>
         (memories (snd (handleStop e input config db)) = memories db \<or>
          (\<exists>m. memories (snd (handleStop e input config db)) = memories db @ [m] \<and>
               type_of m = Diary \<and> Some (title m) = map_option in_title (ex_diary ex)))"
proof -
  from extract_streams [OF assms(2,3)] obtain msgs d where
    ex: "ex = \<lparr> ex_diary = Some d, ex_corrections = extractCorrections (env_rx e) msgs,
                ex_preferences = extractPreferences (env_rx e) msgs \<rparr>"
    and d: "in_type d = Diary" by blast
  let ?s0 = "\<lparr> s_db = db, s_ticks = 2, s_drawn = 0 \<rparr>"
  show ?thesis
  proof (cases "db_insert e d ?s0")
    case (Inl err)
    then have "handleStop e input config db = (Uncaught err, db)"
      using assms(1,2) ex by (simp add: handleStop_def)
    with db_insert_fails [OF Inl] show ?thesis by simp
  next
    case (Inr r)
    then obtain m s1 where r: "db_insert e d ?s0 = Inr (m, s1)" by (cases r) auto
    from db_insert_row [OF r] d have
      rows: "memories (s_db s1) = memories db @ [m]" "title m = in_title d" "type_of m = Diary"
      by simp_all
    have "handleStop e input config db = (Uncaught SqliteError, s_db s1)"
    proof (cases "ex_corrections ex = []")
      case False
      then have "insert_unless_found e (ex_corrections ex) s1 = (Some SqliteError, s1)"
        using corrections_unsearchable [of "hd (ex_corrections ex)" "env_rx e" msgs] ex
        by (intro insert_unless_found_raises) auto
      then show ?thesis using assms(1,2) ex r by (simp add: handleStop_def)
    next
      case True
      with assms(3) have p: "ex_preferences ex \<noteq> []" by simp
      then have "insert_unless_found e (ex_preferences ex) s1 = (Some SqliteError, s1)"
        using preferences_unsearchable [of "hd (ex_preferences ex)" "env_rx e" msgs] ex
        by (intro insert_unless_found_raises) auto
      moreover have "insert_unless_found e (ex_corrections ex) s1 = (None, s1)"
        using True by simp
      ultimately show ?thesis using assms(1,2) ex r by (simp add: handleStop_def)
    qed
    with rows ex show ?thesis by simp
  qed
qed

lemma four_corrections:
  "extractCorrections rx_sample [msg_u1, msg_a1, msg_u2, msg_a2] = [sample_correction]"
  by (simp add: extractCorrections_def msg_u1_def msg_a1_def msg_u2_def msg_a2_def rx_sample_def text_u1_def
        correction_of_def trim_def is_space_def slice_def context_window_def dedup_def Let_def
        sample_correction_def)

lemma four_preferences:
  "extractPreferences rx_sample [msg_u1, msg_a1, msg_u2, msg_a2] = [sample_preference]"
  by (simp add: extractPreferences_def msg_u1_def msg_a1_def msg_u2_def msg_a2_def rx_sample_def text_u1_def
        preference_of_def trim_def is_space_def slice_def context_window_def dedup_def Let_def
        sample_preference_def)

lemma four_topics: "extractTopics rx_sample [msg_u1, msg_a1, msg_u2, msg_a2] = []"
  by (simp add: extractTopics_def msg_u1_def msg_a1_def msg_u2_def msg_a2_def rx_sample_def text_u1_def Let_def)

lemma four_files: "extractFileRefs rx_sample [msg_u1, msg_a1, msg_u2, msg_a2] = []"
  by (simp add: extractFileRefs_def msg_u1_def msg_a1_def msg_u2_def msg_a2_def rx_sample_def text_u1_def Let_def)

lemma sample_msgs:
  "role msg_u1 = ''user''" "role msg_a1 = ''assistant''" "role msg_u2 = ''user''" "role msg_a2 = ''assistant''"
  "msg_content msg_u1 = CString text_u1" "msg_content msg_a1 = CString ''ok''"
  "msg_content msg_u2 = CString ''thanks''" "msg_content msg_a2 = CString ''done''"
  by (simp_all add: msg_u1_def msg_a1_def msg_u2_def msg_a2_def)

lemma sample_fmt_values:
  "sample_fmt 1772323200002 = ''2026-03-01T00:00:00.002Z''"
  "sample_fmt 1774915200001 = ''2026-03-31T00:00:00.001Z''"
  unfolding sample_fmt_def by code_simp+

lemma four_diary:
  "buildDiary rx_sample sample_fmt sample_clock_ms [msg_u1, msg_a1, msg_u2, msg_a2] sample_config
     = Inr sample_diary"
  by (simp add: buildDiary_def four_topics four_files Let_def toISOString_def sample_clock_ms_def
        sample_config_def sample_fmt_values sample_diary_def diary_line_def slice_def trim_def is_space_def
        sample_msgs text_u1_def)

lemma four_extract:
  "extractFromTranscript sample_fs parse_sample_line rx_sample sample_fmt sample_clock_ms
     ''/t/four.jsonl'' sample_config
   = Inr \<lparr> ex_diary = Some sample_diary, ex_corrections = [sample_correction],
           ex_preferences = [sample_preference] \<rparr>"
  by (simp add: extractFromTranscript_def read_four four_diary four_corrections four_preferences)


lemma sample_env_fields:
  "env_readFile sample_env = sample_fs" "env_parse_line sample_env = parse_sample_line"
  "env_rx sample_env = rx_sample" "env_fmt sample_env = sample_fmt"
  "env_clock sample_env = sample_clock_ms" "env_uuid sample_env k = ''u'' @ show_nat k"
  by (simp_all add: sample_env_def)

lemma sample_uuid0: "env_uuid sample_env 0 = ''u0''"
  by (simp add: sample_env_def)

lemma sample_now2: "now_iso sample_env \<lparr> s_db = db, s_ticks = 2, s_drawn = 0 \<rparr> = ''2026-03-01T00:00:00.002Z''"
  by (simp add: now_iso_def sample_env_def sample_clock_ms_def sample_fmt_values)

lemma sample_insert_diary:
  "db_insert sample_env sample_diary \<lparr> s_db = empty_db, s_ticks = 2, s_drawn = 0 \<rparr> =
     Inr (toMemory ''2026-03-01T00:00:00.002Z'' ''u0'' sample_diary,
          \<lparr> s_db = \<lparr> memories = [toMemory ''2026-03-01T00:00:00.002Z'' ''u0'' sample_diary], metrics = [] \<rparr>,
            s_ticks = 3, s_drawn = 1 \<rparr>)"
  by (simp add: db_insert_def sample_now2 sample_uuid0 insert_row_def empty_db_def Let_def)

lemma sample_search_raises: "search db (in_title sample_correction) n = Inl SqliteError"
proof -
  have t: "in_title sample_correction = ''Correction: '' @ ''always use tabs instead of spaces''"
    by (simp add: sample_correction_def)
  show ?thesis unfolding t by (simp add: search_def parse_Correction del: append.simps)
qed

lemma sample_stop_result:
  "handleStop sample_env sample_hook sample_config empty_db =
     (Uncaught SqliteError,
      \<lparr> memories = [toMemory ''2026-03-01T00:00:00.002Z'' ''u0'' sample_diary], metrics = [] \<rparr>)"
proof -
  have a: "\<not> stop_hook_active sample_hook" by (simp add: sample_hook_def)
  have x: "extractFromTranscript (env_readFile sample_env) (env_parse_line sample_env) (env_rx sample_env)
       (env_fmt sample_env) (env_clock sample_env) (transcript_path sample_hook) sample_config
     = Inr \<lparr> ex_diary = Some sample_diary, ex_corrections = [sample_correction],
             ex_preferences = [sample_preference] \<rparr>"
    by (simp add: sample_env_fields sample_hook_def four_extract)
  show ?thesis
    unfolding handleStop_def Let_def
    by (simp add: a x sample_insert_diary sample_search_raises)
qed


theorem handleStop_candidates_raise_witness:
  "\<not> stop_hook_active sample_hook \<and>
   extractFromTranscript (env_readFile sample_env) (env_parse_line sample_env) (env_rx sample_env)
       (env_fmt sample_env) (env_clock sample_env) (transcript_path sample_hook) sample_config
     = Inr \<lparr> ex_diary = Some sample_diary, ex_corrections = [sample_correction],
             ex_preferences = [sample_preference] \<rparr> \<and>
   in_title sample_correction \<notin> title ` set (memories empty_db) \<and>
   fst (handleStop sample_env sample_hook sample_config empty_db) = Uncaught SqliteError \<and>
   map title (memories (snd (handleStop sample_env sample_hook sample_config empty_db)))
     = [''Session: actually, always use tabs instead of spaces'']"
proof -
  have a: "\<not> stop_hook_active sample_hook" by (simp add: sample_hook_def)
  have x: "extractFromTranscript (env_readFile sample_env) (env_parse_line sample_env) (env_rx sample_env)
       (env_fmt sample_env) (env_clock sample_env) (transcript_path sample_hook) sample_config
     = Inr \<lparr> ex_diary = Some sample_diary, ex_corrections = [sample_correction],
             ex_preferences = [sample_preference] \<rparr>"
    by (simp add: sample_env_fields sample_hook_def four_extract)
  have c: "ex_corrections \<lparr> ex_diary = Some sample_diary, ex_corrections = [sample_correction],
             ex_preferences = [sample_preference] \<rparr> \<noteq> [] \<or>
           ex_preferences \<lparr> ex_diary = Some sample_diary, ex_corrections = [sample_correction],
             ex_preferences = [sample_preference] \<rparr> \<noteq> []"
    by simp
  have f: "fst (handleStop sample_env sample_hook sample_config empty_db) = Uncaught SqliteError"
    using handleStop_candidates_raise [OF a x c, of empty_db] by (rule conjunct1)
  have n: "in_title sample_correction \<notin> title ` set (memories empty_db)"
    by (simp add: empty_db_def)
  have r: "map title (memories (snd (handleStop sample_env sample_hook sample_config empty_db)))
     = [''Session: actually, always use tabs instead of spaces'']"
    by (simp add: sample_stop_result toMemory_def sample_diary_def)
  from a x n f r show ?thesis by (intro conjI)
qed

section \<open>\<open>mem_store\<close>: theorems\<close>

lemmas lex_eval = is_bareword_char_def is_alnum_def is_fts_space_def is_fts_punct_def word_token_def
  emit_token_def

lemma parse_auth_flow:
  "fts5_parse ''Auth flow'' = Phrases [[''auth''], [''flow'']]"
  by (simp add: fts5_parse_def lex_eval unicode61_def toLowerCase_char_def)

lemma terms_note: "row_terms (auth_note i t) = Some note_terms"
  by (simp add: row_terms_def indexed_columns_def auth_note_def json_strings_def unicode61_def
        is_alnum_def toLowerCase_char_def note_terms_def)

lemma terms_stored_first:
  "row_terms (stored_first now ex) = Some stored_terms"
  by (simp add: row_terms_def indexed_columns_def stored_first_def toMemory_def json_strings_def unicode61_def
        is_alnum_def toLowerCase_char_def stored_terms_def)

lemma freq_terms:
  "phrase_freq [''auth''] note_terms = 1" "phrase_freq [''flow''] note_terms = 1"
  "phrase_freq [''auth''] stored_terms = 1" "phrase_freq [''flow''] stored_terms = 1"
  by (simp_all add: note_terms_def stored_terms_def phrase_freq_def occurrences_def upt_rec)

lemma size_terms: "row_size note_terms = 4" "row_size stored_terms = 9"
  by (simp_all add: row_size_def note_terms_def stored_terms_def)

lemma idf3:
  "idf [note_terms, note_terms, note_terms] [''auth''] = 1 / 1000000"
  "idf [note_terms, note_terms, note_terms] [''flow''] = 1 / 1000000"
  by (simp_all add: idf_def freq_terms Let_def)

lemma idf4:
  "idf [note_terms, note_terms, note_terms, stored_terms] [''auth''] = 1 / 1000000"
  "idf [note_terms, note_terms, note_terms, stored_terms] [''flow''] = 1 / 1000000"
  by (simp_all add: idf_def freq_terms Let_def)

lemma rank3:
  "bm25 [note_terms, note_terms, note_terms] [[''auth''], [''flow'']] note_terms = - (2 / 1000000)"
  by (simp add: bm25_def idf3 freq_terms size_terms Let_def)

lemma rank4:
  "bm25 [note_terms, note_terms, note_terms, stored_terms] [[''auth''], [''flow'']] note_terms
     = - (77 / 34750000)"
  "bm25 [note_terms, note_terms, note_terms, stored_terms] [[''auth''], [''flow'']] stored_terms
     = - (77 / 49750000)"
  by (simp_all add: bm25_def idf4 freq_terms size_terms Let_def)

lemma matches_terms:
  "matches [[''auth''], [''flow'']] note_terms" "matches [[''auth''], [''flow'']] stored_terms"
  by (simp_all add: matches_def freq_terms)

lemma rowToMemory_note: "rowToMemory (auth_note i t) = auth_note i t"
  by (simp add: rowToMemory_def auth_note_def)

lemma search_notes:
  "search notes_db ''Auth flow'' 3 =
     Inr [\<lparr> memory = auth_note ''k1'' Diary, rank = - (2 / 1000000) \<rparr>,
          \<lparr> memory = auth_note ''k2'' Knowledge, rank = - (2 / 1000000) \<rparr>,
          \<lparr> memory = auth_note ''k3'' Shared, rank = - (2 / 1000000) \<rparr>]"
  by (simp add: search_def parse_auth_flow notes_db_def terms_note matches_terms rank3 rowToMemory_note)

lemma search_after:
  "search \<lparr> memories = memories notes_db @ [stored_first now ex], metrics = ms \<rparr> ''Auth flow'' 3 =
     Inr [\<lparr> memory = auth_note ''k1'' Diary, rank = - (77 / 34750000) \<rparr>,
          \<lparr> memory = auth_note ''k2'' Knowledge, rank = - (77 / 34750000) \<rparr>,
          \<lparr> memory = auth_note ''k3'' Shared, rank = - (77 / 34750000) \<rparr>]"
  by (simp add: search_def parse_auth_flow notes_db_def terms_note terms_stored_first matches_terms rank4
        rowToMemory_note)

lemma sample_env_sel:
  "env_fmt sample_env = sample_fmt" "env_clock sample_env = sample_clock_ms"
  "env_uuid sample_env k = ''u'' @ show_nat k"
  by (simp_all add: sample_env_def)

lemma not_dup_note: "\<not> is_duplicate a \<lparr> memory = auth_note i t, rank = r \<rparr>" if "a_type a = Insight" "t \<noteq> Insight"
  using that by (simp add: is_duplicate_def auth_note_def)

lemma call_fields:
  "a_title first_call = ''Auth flow''" "a_type first_call = Insight" "a_priority first_call = 1"
  "a_title second_call = ''Auth flow''" "a_type second_call = Insight" "a_priority second_call = 1"
  by (simp_all add: first_call_def second_call_def)

lemma expiry_one:
  "expiry_for sample_env sample_config 1 s =
     Inr (Some (sample_fmt (sample_clock_ms (s_ticks s) + 7776000000)), s\<lparr>s_ticks := s_ticks s + 1\<rparr>)"
  if "s_ticks s \<le> 10"
  using that by (simp add: expiry_for_def toISOString_def sample_env_sel sample_config_def sample_clock_ms_def)

lemma db_insert_fresh:
  assumes "env_uuid e (s_drawn s) \<notin> set (map id_of (memories (s_db s)))"
  shows "db_insert e input s =
     Inr (toMemory (now_iso e s) (env_uuid e (s_drawn s)) input,
          s\<lparr> s_db := (s_db s)\<lparr>memories := memories (s_db s) @
                         [toMemory (now_iso e s) (env_uuid e (s_drawn s)) input]\<rparr>,
             s_ticks := s_ticks s + 1, s_drawn := s_drawn s + 1 \<rparr>)"
  using assms unfolding db_insert_def insert_row_def Let_def by simp

lemma mem_store_inserts:
  assumes a: "search (s_db s) (a_title a) 3 = Inr ex" and b: "find (is_duplicate a) ex = None"
    and c: "a_priority a = 1" and d: "s_ticks s \<le> 10"
    and e: "env_uuid sample_env (s_drawn s) \<notin> set (map id_of (memories (s_db s)))"
  shows "fst (mem_store sample_env sample_config a s)
           = Inr (''Stored memory: '' @ env_uuid sample_env (s_drawn s) @ '' ('' @ type_name (a_type a) @ ''/P1)'')"
    and "memories (s_db (snd (mem_store sample_env sample_config a s)))
           = memories (s_db s) @
             [toMemory (sample_fmt (sample_clock_ms (s_ticks s + 1))) (env_uuid sample_env (s_drawn s))
                \<lparr> in_type = a_type a, in_priority = P1, in_title = a_title a,
                  in_summary = a_summary a, in_content = a_content a,
                  in_tags = Some (a_tags a), in_agent_id = None, in_source_ids = None,
                  in_expires_at = Some (sample_fmt (sample_clock_ms (s_ticks s) + 7776000000)) \<rparr>]"
    and "s_ticks (snd (mem_store sample_env sample_config a s)) = s_ticks s + 3"
    and "s_drawn (snd (mem_store sample_env sample_config a s)) = s_drawn s + 1"
proof -
  let ?s1 = "s\<lparr>s_ticks := s_ticks s + 1\<rparr>"
  let ?input = "\<lparr> in_type = a_type a, in_priority = P1, in_title = a_title a,
                  in_summary = a_summary a, in_content = a_content a,
                  in_tags = Some (a_tags a), in_agent_id = None, in_source_ids = None,
                  in_expires_at = Some (sample_fmt (sample_clock_ms (s_ticks s) + 7776000000)) \<rparr>"
  let ?m = "toMemory (now_iso sample_env ?s1) (env_uuid sample_env (s_drawn ?s1)) ?input"
  let ?s2 = "?s1\<lparr> s_db := (s_db ?s1)\<lparr>memories := memories (s_db ?s1) @ [?m]\<rparr>,
             s_ticks := s_ticks ?s1 + 1, s_drawn := s_drawn ?s1 + 1 \<rparr>"
  have v: "\<not> (a_priority a < 0 \<or> 2 < a_priority a)" using c by simp
  have x: "expiry_for sample_env sample_config (a_priority a) s =
      Inr (Some (sample_fmt (sample_clock_ms (s_ticks s) + 7776000000)), ?s1)"
    using expiry_one [OF d] c by simp
  have p: "priority_of (a_priority a) = Some P1" using c by (simp add: priority_of_def)
  have "env_uuid sample_env (s_drawn ?s1) \<notin> set (map id_of (memories (s_db ?s1)))"
    using e by simp
  then have i: "db_insert sample_env ?input ?s1 = Inr (?m, ?s2)"
    by (rule db_insert_fresh)
  have r: "mem_store sample_env sample_config a s =
      (Inr (''Stored memory: '' @ id_of ?m @ '' ('' @ type_name (a_type a) @ ''/P'' @
                                      priority_digit P1 @ '')''),
       db_recordMetric sample_env ''store''
          [(''id'', id_of ?m), (''type'', type_name (a_type a)), (''priority'', priority_digit P1)] ?s2)"
    unfolding mem_store_def by (simp only: v if_False a b x p i sum.case option.case prod.case)
  show "fst (mem_store sample_env sample_config a s)
           = Inr (''Stored memory: '' @ env_uuid sample_env (s_drawn s) @ '' ('' @ type_name (a_type a) @ ''/P1)'')"
    unfolding r by (simp add: toMemory_def)
  show "memories (s_db (snd (mem_store sample_env sample_config a s)))
           = memories (s_db s) @
             [toMemory (sample_fmt (sample_clock_ms (s_ticks s + 1))) (env_uuid sample_env (s_drawn s)) ?input]"
    unfolding r by (simp add: db_recordMetric_def recordMetric_def now_iso_def sample_env_sel)
  show "s_ticks (snd (mem_store sample_env sample_config a s)) = s_ticks s + 3"
    unfolding r by (simp add: db_recordMetric_def)
  show "s_drawn (snd (mem_store sample_env sample_config a s)) = s_drawn s + 1"
    unfolding r by (simp add: db_recordMetric_def)
qed

lemma find_notes:
  "a_type a = Insight \<Longrightarrow>
   find (is_duplicate a)
     [\<lparr> memory = auth_note ''k1'' Diary, rank = r \<rparr>,
      \<lparr> memory = auth_note ''k2'' Knowledge, rank = r \<rparr>,
      \<lparr> memory = auth_note ''k3'' Shared, rank = r \<rparr>] = None"
  by (simp add: not_dup_note)

lemma show_nat_small: "show_nat 0 = ''0''" "show_nat 1 = ''1''"
  by simp_all

lemma notes_ids: "map id_of (memories notes_db) = [''k1'', ''k2'', ''k3'']"
  by (simp add: notes_db_def auth_note_def)

lemma first_result:
  "fst after_first = Inr ''Stored memory: u0 (insight/P1)''"
  "memories (s_db (snd after_first)) = memories notes_db @
     [stored_first (sample_fmt (sample_clock_ms 1)) (sample_fmt (sample_clock_ms 0 + 7776000000))]"
  "s_ticks (snd after_first) = 3" "s_drawn (snd after_first) = 1"
proof -
  let ?s = "\<lparr> s_db = notes_db, s_ticks = 0, s_drawn = 0 \<rparr>"
  have a: "search (s_db ?s) (a_title first_call) 3 =
     Inr [\<lparr> memory = auth_note ''k1'' Diary, rank = - (2 / 1000000) \<rparr>,
          \<lparr> memory = auth_note ''k2'' Knowledge, rank = - (2 / 1000000) \<rparr>,
          \<lparr> memory = auth_note ''k3'' Shared, rank = - (2 / 1000000) \<rparr>]"
    by (simp add: call_fields search_notes)
  have b: "find (is_duplicate first_call)
     [\<lparr> memory = auth_note ''k1'' Diary, rank = - (2 / 1000000) \<rparr>,
      \<lparr> memory = auth_note ''k2'' Knowledge, rank = - (2 / 1000000) \<rparr>,
      \<lparr> memory = auth_note ''k3'' Shared, rank = - (2 / 1000000) \<rparr>] = None"
    by (rule find_notes) (simp add: call_fields)
  have c: "a_priority first_call = 1" by (simp add: call_fields)
  have d: "s_ticks ?s \<le> 10" by simp
  have e: "env_uuid sample_env (s_drawn ?s) \<notin> set (map id_of (memories (s_db ?s)))"
    by (simp add: sample_env_sel notes_ids show_nat_small)
  note r = mem_store_inserts [OF a b c d e]
  from r(1) show "fst after_first = Inr ''Stored memory: u0 (insight/P1)''"
    by (simp add: after_first_def sample_env_sel show_nat_small call_fields)
  from r(2) show "memories (s_db (snd after_first)) = memories notes_db @
     [stored_first (sample_fmt (sample_clock_ms 1)) (sample_fmt (sample_clock_ms 0 + 7776000000))]"
    by (simp add: after_first_def sample_env_sel show_nat_small stored_first_def first_call_def)
  from r(3) show "s_ticks (snd after_first) = 3" by (simp add: after_first_def)
  from r(4) show "s_drawn (snd after_first) = 1" by (simp add: after_first_def)
qed

lemma search_grown:
  "memories db = memories notes_db @ [stored_first now ex] \<Longrightarrow>
   search db ''Auth flow'' 3 =
     Inr [\<lparr> memory = auth_note ''k1'' Diary, rank = - (77 / 34750000) \<rparr>,
          \<lparr> memory = auth_note ''k2'' Knowledge, rank = - (77 / 34750000) \<rparr>,
          \<lparr> memory = auth_note ''k3'' Shared, rank = - (77 / 34750000) \<rparr>]"
  by (simp add: search_def parse_auth_flow notes_db_def terms_note terms_stored_first matches_terms rank4
        rowToMemory_note)

lemma second_result:
  "fst after_second = Inr ''Stored memory: u1 (insight/P1)''"
  "memories (s_db (snd after_second)) = memories notes_db @
     [stored_first (sample_fmt (sample_clock_ms 1)) (sample_fmt (sample_clock_ms 0 + 7776000000)),
      toMemory (sample_fmt (sample_clock_ms 4)) ''u1''
        \<lparr> in_type = Insight, in_priority = P1, in_title = ''Auth flow'',
          in_summary = ''tokens expire'', in_content = ''after one hour'',
          in_tags = Some [], in_agent_id = None, in_source_ids = None,
          in_expires_at = Some (sample_fmt (sample_clock_ms 3 + 7776000000)) \<rparr>]"
proof -
  let ?s = "snd after_first"
  have a: "search (s_db ?s) (a_title second_call) 3 =
     Inr [\<lparr> memory = auth_note ''k1'' Diary, rank = - (77 / 34750000) \<rparr>,
          \<lparr> memory = auth_note ''k2'' Knowledge, rank = - (77 / 34750000) \<rparr>,
          \<lparr> memory = auth_note ''k3'' Shared, rank = - (77 / 34750000) \<rparr>]"
    using search_grown [OF first_result(2)] by (simp add: call_fields)
  have b: "find (is_duplicate second_call)
     [\<lparr> memory = auth_note ''k1'' Diary, rank = - (77 / 34750000) \<rparr>,
      \<lparr> memory = auth_note ''k2'' Knowledge, rank = - (77 / 34750000) \<rparr>,
      \<lparr> memory = auth_note ''k3'' Shared, rank = - (77 / 34750000) \<rparr>] = None"
    by (rule find_notes) (simp add: call_fields)
  have c: "a_priority second_call = 1" by (simp add: call_fields)
  have d: "s_ticks ?s \<le> 10" by (simp add: first_result)
  have e: "env_uuid sample_env (s_drawn ?s) \<notin> set (map id_of (memories (s_db ?s)))"
    by (simp add: first_result sample_env_sel notes_ids show_nat_small stored_first_def toMemory_def)
  note r = mem_store_inserts [OF a b c d e]
  from r(1) show "fst after_second = Inr ''Stored memory: u1 (insight/P1)''"
    by (simp add: after_second_def first_result sample_env_sel show_nat_small call_fields)
  from r(2) show "memories (s_db (snd after_second)) = memories notes_db @
     [stored_first (sample_fmt (sample_clock_ms 1)) (sample_fmt (sample_clock_ms 0 + 7776000000)),
      toMemory (sample_fmt (sample_clock_ms 4)) ''u1''
        \<lparr> in_type = Insight, in_priority = P1, in_title = ''Auth flow'',
          in_summary = ''tokens expire'', in_content = ''after one hour'',
          in_tags = Some [], in_agent_id = None, in_source_ids = None,
          in_expires_at = Some (sample_fmt (sample_clock_ms 3 + 7776000000)) \<rparr>]"
    by (simp add: after_second_def first_result sample_env_sel show_nat_small second_call_def)
qed

text \<open>What the validation and the column constraint do with the priority.\<close>

lemma mem_store_priority_checked:
  assumes "0 \<le> a_priority a" and "a_priority a \<le> 2"
    and "a_priority a \<noteq> 0" and "a_priority a \<noteq> 1" and "a_priority a \<noteq> 2"
    and "search (s_db s) (a_title a) 3 = Inr ex" and "find (is_duplicate a) ex = None"
  shows "fst (mem_store e config a s) = Inl SqliteError"
proof -
  have v: "\<not> (a_priority a < 0 \<or> 2 < a_priority a)" using assms(1,2) by simp
  have x: "expiry_for e config (a_priority a) s = Inr (None, s)"
    using assms(4,5) by (simp add: expiry_for_def)
  have p: "priority_of (a_priority a) = None"
    using assms(3,4,5) by (simp add: priority_of_def)
  show ?thesis
    unfolding mem_store_def
    by (simp only: v if_False assms(6,7) x p sum.case option.case prod.case fst_conv)
qed

lemma mem_store_out_of_range:
  "a_priority a < 0 \<or> 2 < a_priority a \<Longrightarrow> mem_store e config a s = (Inl InvalidParams, s)"
  by (simp add: mem_store_def)

text \<open>
  C2.  In a store that holds a diary, a knowledge and a shared record titled \<open>Auth flow\<close>,
  \<open>mem_store\<close> is called twice with the title \<open>Auth flow\<close> and the type insight.  The first
  call finds no insight with the title and inserts one.  The second call searches again,
  with the limit 3: the three short records rank before the insight, which is cut off, so
  no duplicate is found and a second insight with the title is inserted.  Both calls reply
  \<open>Stored memory\<close>, and the store ends with two records of that title and type.
\<close>

theorem mem_store_twice_duplicates:
  "fst after_first = Inr ''Stored memory: u0 (insight/P1)'' \<and>
   fst after_second = Inr ''Stored memory: u1 (insight/P1)'' \<and>
   map (\<lambda>m. (id_of m, title m, content m))
     (filter (\<lambda>m. type_of m = Insight) (memories (s_db (snd after_second))))
     = [(''u0'', ''Auth flow'', ''see the login module''), (''u1'', ''Auth flow'', ''after one hour'')]"
  by (simp add: first_result(1) second_result notes_db_def auth_note_def stored_first_def toMemory_def)

end
